theory Spec2Isabelle
  imports Complex_Main "HOL-Library.Sublist"
begin

section \<open>JavaScript strings and arrays\<close>

text \<open>
  Strings are modelled as HOL strings (lists of characters).  The source only inspects
  ASCII punctuation (\<open>.\<close>, \<open>/\<close>, \<open>?\<close>) and compares against ASCII literals, so
  \<open>toLowerCase\<close> is modelled on the letters A to Z and leaves every other character alone.
\<close>

definition lower_char :: "char \<Rightarrow> char" where
  "lower_char c =
     (case map_of (zip ''ABCDEFGHIJKLMNOPQRSTUVWXYZ'' ''abcdefghijklmnopqrstuvwxyz'') c of
        None \<Rightarrow> c
      | Some d \<Rightarrow> d)"

definition toLowerCase :: "string \<Rightarrow> string" where
  "toLowerCase s = map lower_char s"

text \<open>\<open>s.split(c)\<close> for a one-character separator: never the empty array.\<close>

fun split :: "char \<Rightarrow> string \<Rightarrow> string list" where
  "split c [] = [[]]"
| "split c (x # xs) =
     (if x = c then [] # split c xs
      else (case split c xs of
              [] \<Rightarrow> [[x]]
            | w # ws \<Rightarrow> (x # w) # ws))"

text \<open>\<open>a.pop()\<close> read for its value only: \<open>undefined\<close> on the empty array.\<close>

definition pop :: "'a list \<Rightarrow> 'a option" where
  "pop xs = (if xs = [] then None else Some (last xs))"

text \<open>\<open>a[i]\<close>: \<open>undefined\<close> out of range.\<close>

definition at_index :: "'a list \<Rightarrow> nat \<Rightarrow> 'a option" where
  "at_index xs i = (if i < length xs then Some (xs ! i) else None)"

definition startsWith :: "string \<Rightarrow> string \<Rightarrow> bool" where
  "startsWith s p = (take (length p) s = p)"

text \<open>\<open>s.includes(c)\<close> for a one-character needle.\<close>

definition includes_char :: "string \<Rightarrow> char \<Rightarrow> bool" where
  "includes_char s c = (c \<in> set s)"

text \<open>Truthiness of a \<open>string | undefined\<close> (or \<open>string | null\<close>) value.\<close>

definition truthy :: "string option \<Rightarrow> bool" where
  "truthy v = (case v of None \<Rightarrow> False | Some s \<Rightarrow> s \<noteq> [])"

text \<open>A value of type \<open>string | undefined\<close> interpolated into a template literal.\<close>

definition interpolate :: "string option \<Rightarrow> string" where
  "interpolate v = (case v of None \<Rightarrow> ''undefined'' | Some s \<Rightarrow> s)"

section \<open>The model-file hook (\<open>useModelFile\<close>)\<close>

record js_file =
  file_name :: string
  file_size :: nat
  file_type :: string

text \<open>The hook's React state.\<close>

record hook_state =
  modelUrl :: "string option"
  isLoading :: bool
  error :: "string option"
  fileName :: "string option"
  fileType :: "string option"

text \<open>
  The part of the browser the hook touches: the session storage and the object URLs that
  are currently live (created by \<open>URL.createObjectURL\<close> and not yet revoked).
\<close>

record browser =
  sessionStorage :: "string \<rightharpoonup> string"
  liveUrls :: "string list"

definition revokeObjectURL :: "string \<Rightarrow> browser \<Rightarrow> browser" where
  "revokeObjectURL u b = b\<lparr>liveUrls := filter (\<lambda>v. v \<noteq> u) (liveUrls b)\<rparr>"

definition setItem :: "string \<Rightarrow> string \<Rightarrow> browser \<Rightarrow> browser" where
  "setItem k v b = b\<lparr>sessionStorage := (sessionStorage b)(k \<mapsto> v)\<rparr>"

definition removeItem :: "string \<Rightarrow> browser \<Rightarrow> browser" where
  "removeItem k b = b\<lparr>sessionStorage := (sessionStorage b)(k := None)\<rparr>"

definition getItem :: "string \<Rightarrow> browser \<Rightarrow> string option" where
  "getItem k b = sessionStorage b k"

definition MAX_SIZE :: nat where
  "MAX_SIZE = 100 * 1024 * 1024"

definition supportedFormats :: "string list" where
  "supportedFormats = [''glb'', ''gltf'', ''obj'', ''fbx'', ''stl'']"

text \<open>
  The local variable \<open>extension\<close> of \<open>loadModel\<close> once the name and the MIME type have
  been looked at: the last dot-separated piece of the name, lower-cased, and, when that
  is falsy and the MIME type starts with \<open>model/\<close>, the MIME subtype with its two special
  cases.
\<close>

definition name_extension :: "js_file \<Rightarrow> string option" where
  "name_extension f = map_option toLowerCase (pop (split CHR ''.'' (file_name f)))"

definition mime_extension :: "js_file \<Rightarrow> string option" where
  "mime_extension f =
     (let extension = at_index (split CHR ''/'' (file_type f)) 1;
          extension = (if extension = Some ''gltf+json'' then Some ''gltf'' else extension);
          extension = (if extension = Some ''gltf-binary'' then Some ''glb'' else extension)
      in extension)"

definition extension :: "js_file \<Rightarrow> string option" where
  "extension f =
     (let ext = name_extension f
      in if \<not> truthy ext \<and> startsWith (file_type f) ''model/''
         then mime_extension f
         else ext)"

text \<open>\<open>modelUrl && modelUrl.startsWith('blob:')\<close>\<close>

definition blob_url :: "string option \<Rightarrow> bool" where
  "blob_url u = (case u of None \<Rightarrow> False | Some s \<Rightarrow> s \<noteq> [] \<and> startsWith s ''blob:'')"

text \<open>
  \<open>loadModel\<close>, on the hook state and the browser.  \<open>created\<close> is what
  \<open>URL.createObjectURL(file)\<close> gives when it is reached: the new URL, or \<open>None\<close> when it
  throws, which the \<open>catch\<close> block turns into an error message.  It is only looked at
  inside the \<open>try\<close> block.  Writing to the session storage is taken to succeed.
\<close>

definition loadModel :: "js_file \<Rightarrow> string option \<Rightarrow> hook_state \<times> browser \<Rightarrow> hook_state \<times> browser" where
  "loadModel f created sb =
     (let (s, b) = sb in
      if file_size f > MAX_SIZE
      then (s\<lparr>error := Some ''File size exceeds 100MB limit''\<rparr>, b)
      else
        let ext = extension f in
        if \<not> truthy ext \<or> \<not> (the ext \<in> set supportedFormats)
        then (s\<lparr>error := Some (''Unsupported file format: .'' @ interpolate ext)\<rparr>, b)
        else
          let b1 = (if blob_url (modelUrl s) then revokeObjectURL (the (modelUrl s)) b else b);
              s1 = s\<lparr>isLoading := True, error := None\<rparr>
          in (case created of
                None \<Rightarrow> (s1\<lparr>error := Some ''Error loading model file'', isLoading := False\<rparr>, b1)
              | Some objectUrl \<Rightarrow>
                  (s1\<lparr>modelUrl := Some objectUrl,
                      fileName := Some (file_name f),
                      fileType := ext,
                      isLoading := False\<rparr>,
                   setItem (''fileType_'' @ objectUrl) (the ext)
                     (b1\<lparr>liveUrls := liveUrls b1 @ [objectUrl]\<rparr>))))"

definition clearModel :: "hook_state \<times> browser \<Rightarrow> hook_state \<times> browser" where
  "clearModel sb =
     (let (s, b) = sb;
          b1 = (case modelUrl s of
                  None \<Rightarrow> b
                | Some u \<Rightarrow>
                    if u = [] then b
                    else let b' = removeItem (''fileType_'' @ u) b
                         in if startsWith u ''blob:'' then revokeObjectURL u b' else b')
      in (s\<lparr>modelUrl := None, fileName := None, fileType := None, error := None\<rparr>, b1))"

section \<open>Loader dispatch (\<open>Model\<close>) and the OBJ component\<close>

text \<open>What a component renders.\<close>

datatype element =
  GLTFModel string string
| OBJModel string string
| PlaceholderModel string
| ErrorMessage string

text \<open>\<open>v || ''\<close> for a \<open>string | undefined\<close> (or \<open>string | null\<close>) value.\<close>

definition or_empty :: "string option \<Rightarrow> string" where
  "or_empty v = (case v of None \<Rightarrow> [] | Some s \<Rightarrow> s)"

definition last_piece :: "char \<Rightarrow> string \<Rightarrow> string" where
  "last_piece c s = or_empty (map_option toLowerCase (pop (split c s)))"

text \<open>
  The local variable \<open>fileExtension\<close> of \<open>Model\<close>.  \<open>search\<close> stands for
  \<open>new URL(url).search\<close>, the browser's URL parser, which is not part of the repository.
\<close>

definition fileExtension :: "(string \<Rightarrow> string) \<Rightarrow> browser \<Rightarrow> string \<Rightarrow> string" where
  "fileExtension search b url =
     (if url \<noteq> [] \<and> truthy (getItem (''fileType_'' @ url) b)
      then or_empty (getItem (''fileType_'' @ url) b)
      else if startsWith url ''blob:''
      then
        (let lastPart = or_empty (pop (split CHR ''/'' url)) in
         if includes_char lastPart CHR ''.''
         then last_piece CHR ''.'' lastPart
         else
           (let searchParams = search url in
            if searchParams \<noteq> [] \<and> includes_char searchParams CHR ''.''
            then last_piece CHR ''.'' searchParams
            else []))
      else
        (let urlPath = or_empty (at_index (split CHR ''?'' url) 0)
         in last_piece CHR ''.'' urlPath))"

text \<open>The dispatch on \<open>fileExtension\<close>, in the source's order.\<close>

definition dispatch :: "string \<Rightarrow> string \<Rightarrow> string \<Rightarrow> element" where
  "dispatch ext url renderMode =
     (if ext = ''gltf'' \<or> ext = ''glb'' then GLTFModel url renderMode
      else if ext = ''obj'' then OBJModel url renderMode
      else if ext = ''stl'' then PlaceholderModel ''STL format support coming soon''
      else if ext = ''fbx'' then PlaceholderModel ''FBX format support coming soon''
      else ErrorMessage (''Unsupported file format: '' @ (if ext \<noteq> [] then ext else ''unknown'')))"

definition Model :: "(string \<Rightarrow> string) \<Rightarrow> browser \<Rightarrow> string \<Rightarrow> string \<Rightarrow> element" where
  "Model search b url renderMode = dispatch (fileExtension search b url) url renderMode"

text \<open>
  The state of the \<open>OBJModel\<close> component and what it renders.  \<open>'o\<close> is the parsed
  object (a \<open>THREE.Group\<close>).  Whether or not a companion material file is found, the
  load ends in one call of the OBJ loader, which reports through its callbacks: the parsed
  object, or an error.
\<close>

record 'o obj_state =
  obj :: "'o option"
  obj_error :: "string option"
  loading :: bool

datatype 'o load_result = OnLoad 'o | OnError

text \<open>
  One run of the loading effect for a URL whose OBJ loader answers with \<open>r\<close>: the flags
  are reset first, then the callback stores the object or the error.
\<close>

definition loadOBJ :: "'o load_result \<Rightarrow> 'o obj_state \<Rightarrow> 'o obj_state" where
  "loadOBJ r s =
     (let s1 = s\<lparr>loading := True, obj_error := None\<rparr>
      in case r of
           OnLoad object \<Rightarrow> s1\<lparr>obj := Some object, loading := False\<rparr>
         | OnError \<Rightarrow> s1\<lparr>obj_error := Some ''Failed to load OBJ model'', loading := False\<rparr>)"

datatype 'o view = LoadingView | ErrorView string | Primitive 'o | Null

definition render_OBJModel :: "'o obj_state \<Rightarrow> 'o view" where
  "render_OBJModel s =
     (if loading s then LoadingView
      else if truthy (obj_error s) then ErrorView (or_empty (obj_error s))
      else (case obj s of Some object \<Rightarrow> Primitive object | None \<Rightarrow> Null))"

section \<open>JavaScript numbers\<close>

text \<open>
  A JavaScript number is a finite double or one of the special values of IEEE 754:
  \<open>NegZero\<close> is \<open>-0\<close> (and \<open>Fin 0\<close> is \<open>+0\<close>), \<open>PInf\<close> and \<open>NInf\<close> are the infinities.
  An arithmetic operation on finite numbers computes the exact real result and rounds it.
  The rounding is the parameter \<open>rd\<close> of every operation: \<open>rd r\<close> is the number the
  machine returns for the exact non-zero result \<open>r\<close>, that is, the nearest double, an
  infinity when \<open>r\<close> is too large, a zero when it is too small.  Nothing is assumed of
  \<open>rd\<close> in the definitions; a theorem that needs a property of it says so.  The cases with
  a special value or an exact zero do not round: division by a zero gives an infinity or
  \<open>NaN\<close>, and \<open>NaN\<close> propagates.
\<close>

datatype js_number = Fin real | NegZero | PInf | NInf | NaN

definition is_nan :: "js_number \<Rightarrow> bool" where
  "is_nan a = (a = NaN)"

definition is_inf :: "js_number \<Rightarrow> bool" where
  "is_inf a = (a = PInf \<or> a = NInf)"

text \<open>\<open>Number.isFinite\<close>.\<close>

definition is_finite :: "js_number \<Rightarrow> bool" where
  "is_finite a = (case a of Fin r \<Rightarrow> True | NegZero \<Rightarrow> True | _ \<Rightarrow> False)"

text \<open>The real value of a finite number (0 for the others, where it is never used).\<close>

definition val :: "js_number \<Rightarrow> real" where
  "val a = (case a of Fin r \<Rightarrow> r | _ \<Rightarrow> 0)"

definition is_zero :: "js_number \<Rightarrow> bool" where
  "is_zero a = (is_finite a \<and> val a = 0)"

text \<open>The sign bit.\<close>

definition negative :: "js_number \<Rightarrow> bool" where
  "negative a = (case a of Fin r \<Rightarrow> r < 0 | NegZero \<Rightarrow> True | NInf \<Rightarrow> True | _ \<Rightarrow> False)"

definition signed_zero :: "bool \<Rightarrow> js_number" where
  "signed_zero neg = (if neg then NegZero else Fin 0)"

definition signed_inf :: "bool \<Rightarrow> js_number" where
  "signed_inf neg = (if neg then NInf else PInf)"

text \<open>
  The result of an operation on finite numbers whose exact value is \<open>r\<close>: a zero of sign
  \<open>neg\<close> when \<open>r\<close> is zero, and \<open>r\<close> rounded otherwise.
\<close>

definition finite_result :: "(real \<Rightarrow> js_number) \<Rightarrow> bool \<Rightarrow> real \<Rightarrow> js_number" where
  "finite_result rd neg r = (if r = 0 then signed_zero neg else rd r)"

text \<open>
  What is asked of the rounding where a theorem needs it, all true of rounding to the
  nearest double: the result keeps the sign of the exact value (a positive value gives
  \<open>+0\<close>, a positive double or \<open>+Infinity\<close>), and a value of magnitude at most \<open>2^1023\<close>, well
  inside the range of doubles, gives a finite number.
\<close>

definition rounding :: "(real \<Rightarrow> js_number) \<Rightarrow> bool" where
  "rounding rd =
     (\<forall>r. (0 < r \<longrightarrow> rd r = PInf \<or> (\<exists>q\<ge>0. rd r = Fin q))
        \<and> (r < 0 \<longrightarrow> rd r = NInf \<or> rd r = NegZero \<or> (\<exists>q<0. rd r = Fin q))
        \<and> (\<bar>r\<bar> \<le> 2 ^ 1023 \<longrightarrow> is_finite (rd r)))"

text \<open>Unary minus flips the sign bit and never rounds.\<close>

definition js_neg :: "js_number \<Rightarrow> js_number" where
  "js_neg a =
     (case a of
        Fin r \<Rightarrow> (if r = 0 then NegZero else Fin (- r))
      | NegZero \<Rightarrow> Fin 0
      | PInf \<Rightarrow> NInf
      | NInf \<Rightarrow> PInf
      | NaN \<Rightarrow> NaN)"

definition js_add :: "(real \<Rightarrow> js_number) \<Rightarrow> js_number \<Rightarrow> js_number \<Rightarrow> js_number" where
  "js_add rd a b =
     (if is_nan a \<or> is_nan b then NaN
      else if is_inf a \<and> is_inf b then (if a = b then a else NaN)
      else if is_inf a then a
      else if is_inf b then b
      else finite_result rd (negative a \<and> negative b) (val a + val b))"

definition js_sub :: "(real \<Rightarrow> js_number) \<Rightarrow> js_number \<Rightarrow> js_number \<Rightarrow> js_number" where
  "js_sub rd a b = js_add rd a (js_neg b)"

definition js_mul :: "(real \<Rightarrow> js_number) \<Rightarrow> js_number \<Rightarrow> js_number \<Rightarrow> js_number" where
  "js_mul rd a b =
     (if is_nan a \<or> is_nan b then NaN
      else if (is_inf a \<and> is_zero b) \<or> (is_zero a \<and> is_inf b) then NaN
      else if is_inf a \<or> is_inf b then signed_inf (negative a \<noteq> negative b)
      else finite_result rd (negative a \<noteq> negative b) (val a * val b))"

definition js_div :: "(real \<Rightarrow> js_number) \<Rightarrow> js_number \<Rightarrow> js_number \<Rightarrow> js_number" where
  "js_div rd a b =
     (if is_nan a \<or> is_nan b then NaN
      else if (is_inf a \<and> is_inf b) \<or> (is_zero a \<and> is_zero b) then NaN
      else if is_inf a then signed_inf (negative a \<noteq> negative b)
      else if is_inf b then signed_zero (negative a \<noteq> negative b)
      else if is_zero b then signed_inf (negative a \<noteq> negative b)
      else finite_result rd (negative a \<noteq> negative b) (val a / val b))"

text \<open>\<open>a < b\<close>: false as soon as one side is \<open>NaN\<close>; the two zeros are equal.\<close>

definition js_less :: "js_number \<Rightarrow> js_number \<Rightarrow> bool" where
  "js_less a b =
     (if is_nan a \<or> is_nan b then False
      else if a = PInf \<or> b = NInf then False
      else if a = NInf \<or> b = PInf then True
      else val a < val b)"

text \<open>Truthiness of a number: \<open>+0\<close>, \<open>-0\<close> and \<open>NaN\<close> are falsy.\<close>

definition truthy_number :: "js_number \<Rightarrow> bool" where
  "truthy_number a = (\<not> is_zero a \<and> \<not> is_nan a)"

text \<open>\<open>Math.abs\<close> clears the sign bit and never rounds.\<close>

definition Math_abs :: "js_number \<Rightarrow> js_number" where
  "Math_abs a =
     (case a of
        Fin r \<Rightarrow> Fin \<bar>r\<bar>
      | NegZero \<Rightarrow> Fin 0
      | PInf \<Rightarrow> PInf
      | NInf \<Rightarrow> PInf
      | NaN \<Rightarrow> NaN)"

definition Math_sqrt :: "(real \<Rightarrow> js_number) \<Rightarrow> js_number \<Rightarrow> js_number" where
  "Math_sqrt rd a =
     (case a of
        Fin r \<Rightarrow> (if r < 0 then NaN else finite_result rd False (sqrt r))
      | NegZero \<Rightarrow> NegZero
      | PInf \<Rightarrow> PInf
      | NInf \<Rightarrow> NaN
      | NaN \<Rightarrow> NaN)"

text \<open>
  \<open>Math.sin\<close>.  On a finite argument the library returns a finite double close to the
  sine; \<open>sine\<close> is that function, a parameter like \<open>rd\<close>.
\<close>

definition Math_sin :: "(real \<Rightarrow> real) \<Rightarrow> js_number \<Rightarrow> js_number" where
  "Math_sin sine a =
     (case a of
        Fin r \<Rightarrow> (if sine r = 0 then signed_zero (r < 0) else Fin (sine r))
      | NegZero \<Rightarrow> NegZero
      | _ \<Rightarrow> NaN)"

text \<open>\<open>Math.PI\<close> is the double nearest to \<open>\<pi>\<close>.\<close>

definition Math_PI :: "(real \<Rightarrow> js_number) \<Rightarrow> js_number" where
  "Math_PI rd = rd pi"

text \<open>\<open>Math.max\<close> of two and of three numbers: \<open>NaN\<close> wins, and \<open>+0\<close> is larger than \<open>-0\<close>.\<close>

definition max2 :: "js_number \<Rightarrow> js_number \<Rightarrow> js_number" where
  "max2 a b =
     (if is_nan a \<or> is_nan b then NaN
      else if js_less a b then b
      else if js_less b a then a
      else if negative a then b else a)"

definition Math_max :: "js_number \<Rightarrow> js_number \<Rightarrow> js_number \<Rightarrow> js_number" where
  "Math_max a b c = max2 (max2 a b) c"

text \<open>
  \<open>Math.round\<close> and \<open>Math.floor\<close> give the exact integer, which is a double whenever the
  argument is: to the nearest integer with halves upwards (\<open>-0\<close> for \<open>-0.5 \<le> x < 0\<close>), and
  downwards.
\<close>

definition Math_round :: "js_number \<Rightarrow> js_number" where
  "Math_round a =
     (case a of
        Fin r \<Rightarrow> (if \<lfloor>r + 1 / 2\<rfloor> = 0 then signed_zero (r < 0) else Fin (of_int \<lfloor>r + 1 / 2\<rfloor>))
      | _ \<Rightarrow> a)"

definition Math_floor :: "js_number \<Rightarrow> js_number" where
  "Math_floor a =
     (case a of
        Fin r \<Rightarrow> Fin (of_int \<lfloor>r\<rfloor>)
      | _ \<Rightarrow> a)"

section \<open>Vectors (\<open>THREE.Vector3\<close>)\<close>

record Vector3 =
  vec_x :: js_number
  vec_y :: js_number
  vec_z :: js_number

text \<open>
  The methods of \<open>THREE.Vector3\<close> that the source calls, as three.js defines them:
  \<open>normalize()\<close> is \<open>divideScalar(length() || 1)\<close> and \<open>divideScalar(s)\<close> is
  \<open>multiplyScalar(1 / s)\<close>.
\<close>

definition vec_add :: "(real \<Rightarrow> js_number) \<Rightarrow> Vector3 \<Rightarrow> Vector3 \<Rightarrow> Vector3" where
  "vec_add rd a b =
     \<lparr>vec_x = js_add rd (vec_x a) (vec_x b),
      vec_y = js_add rd (vec_y a) (vec_y b),
      vec_z = js_add rd (vec_z a) (vec_z b)\<rparr>"

definition vec_sub :: "(real \<Rightarrow> js_number) \<Rightarrow> Vector3 \<Rightarrow> Vector3 \<Rightarrow> Vector3" where
  "vec_sub rd a b =
     \<lparr>vec_x = js_sub rd (vec_x a) (vec_x b),
      vec_y = js_sub rd (vec_y a) (vec_y b),
      vec_z = js_sub rd (vec_z a) (vec_z b)\<rparr>"

definition multiplyScalar :: "(real \<Rightarrow> js_number) \<Rightarrow> Vector3 \<Rightarrow> js_number \<Rightarrow> Vector3" where
  "multiplyScalar rd a s =
     \<lparr>vec_x = js_mul rd (vec_x a) s, vec_y = js_mul rd (vec_y a) s,
      vec_z = js_mul rd (vec_z a) s\<rparr>"

definition divideScalar :: "(real \<Rightarrow> js_number) \<Rightarrow> Vector3 \<Rightarrow> js_number \<Rightarrow> Vector3" where
  "divideScalar rd a s = multiplyScalar rd a (js_div rd (Fin 1) s)"

definition vec_length :: "(real \<Rightarrow> js_number) \<Rightarrow> Vector3 \<Rightarrow> js_number" where
  "vec_length rd a =
     Math_sqrt rd
       (js_add rd (js_add rd (js_mul rd (vec_x a) (vec_x a)) (js_mul rd (vec_y a) (vec_y a)))
          (js_mul rd (vec_z a) (vec_z a)))"

definition normalize_vec :: "(real \<Rightarrow> js_number) \<Rightarrow> Vector3 \<Rightarrow> Vector3" where
  "normalize_vec rd a =
     divideScalar rd a (if truthy_number (vec_length rd a) then vec_length rd a else Fin 1)"

section \<open>Annotations\<close>

record annotation_data =
  position :: Vector3
  title :: string
  description :: string
  color :: "string option"

record annotation = annotation_data +
  ann_id :: string

text \<open>A non-negative integer in a template literal: its decimal digits.\<close>

definition digit_char :: "nat \<Rightarrow> char" where
  "digit_char d = ''0123456789'' ! d"

fun number_string :: "nat \<Rightarrow> string" where
  "number_string n =
     (if n < 10 then [digit_char n]
      else number_string (n div 10) @ [digit_char (n mod 10)])"

declare number_string.simps [simp del]

text \<open>
  An integral number in a template literal, as \<open>Math.floor\<close> returns it: a sign and the
  decimal digits, or the name of the special value.
\<close>

definition number_text :: "js_number \<Rightarrow> string" where
  "number_text a =
     (case a of
        Fin r \<Rightarrow> (if r < 0 then CHR ''-'' # number_string (nat \<lfloor>- r\<rfloor>)
                   else number_string (nat \<lfloor>r\<rfloor>))
      | NegZero \<Rightarrow> ''0''
      | PInf \<Rightarrow> ''Infinity''
      | NInf \<Rightarrow> ''-Infinity''
      | NaN \<Rightarrow> ''NaN'')"

text \<open>
  The identifier built by \<open>addAnnotation\<close>.  \<open>now\<close> is the value of \<open>Date.now()\<close>, a count
  of milliseconds, and \<open>rnd\<close> the double that \<open>Math.random()\<close> returns, at least 0 and
  below 1.  The product \<open>Math.random() * 1000\<close> is a rounded product of doubles.
\<close>

definition random_suffix :: "(real \<Rightarrow> js_number) \<Rightarrow> real \<Rightarrow> js_number" where
  "random_suffix rd rnd = Math_floor (js_mul rd (Fin rnd) (Fin 1000))"

definition annotation_id :: "(real \<Rightarrow> js_number) \<Rightarrow> nat \<Rightarrow> real \<Rightarrow> string" where
  "annotation_id rd now rnd =
     ''annotation-'' @ number_string now @ ''-'' @ number_text (random_suffix rd rnd)"

text \<open>
  The manager's operations on its list \<open>annotations\<close>.  \<open>addAnnotation\<close> gives the new list
  and the record it returns.
\<close>

definition addAnnotation ::
  "(real \<Rightarrow> js_number) \<Rightarrow> nat \<Rightarrow> real \<Rightarrow> annotation_data \<Rightarrow> annotation list
    \<Rightarrow> annotation list \<times> annotation" where
  "addAnnotation rd now rnd data annotations =
     (let newAnnotation = annotation_data.extend data (annotation.fields (annotation_id rd now rnd))
      in (annotations @ [newAnnotation], newAnnotation))"

definition removeAnnotation :: "string \<Rightarrow> annotation list \<Rightarrow> annotation list" where
  "removeAnnotation i annotations = filter (\<lambda>a. ann_id a \<noteq> i) annotations"

definition getAnnotation :: "string \<Rightarrow> annotation list \<Rightarrow> annotation option" where
  "getAnnotation i annotations = List.find (\<lambda>a. ann_id a = i) annotations"

definition clearAnnotations :: "annotation list \<Rightarrow> annotation list" where
  "clearAnnotations annotations = []"

section \<open>Render modes\<close>

text \<open>
  The fields of a \<open>THREE.Material\<close> that tell the materials of the source apart.  A
  material built by a three.js constructor has the empty name unless one is given.
\<close>

record material =
  mat_type :: string
  mat_name :: string
  wireframe :: bool
  mat_color :: nat
  flatShading :: bool
  map_texture :: "string option"

text \<open>\<open>mesh.material\<close>: absent, one material, or an array of materials.\<close>

datatype mesh_material = NoMaterial | Single material | Multi "material list"

text \<open>A node of the scene graph: a mesh or not, its material, its children.\<close>

datatype object3d = Object3D (isMesh: bool) (node_material: mesh_material) (children: "object3d list")

text \<open>\<open>new THREE.MeshBasicMaterial({ wireframe: true, color: 0x00ff00 })\<close>\<close>

definition wireframeMaterial :: material where
  "wireframeMaterial =
     \<lparr>mat_type = ''MeshBasicMaterial'', mat_name = '''', wireframe = True, mat_color = 0x00ff00,
      flatShading = False, map_texture = None\<rparr>"

text \<open>\<open>new THREE.MeshStandardMaterial({ color: 0xcccccc, flatShading: true })\<close>\<close>

definition solidMaterial :: material where
  "solidMaterial =
     \<lparr>mat_type = ''MeshStandardMaterial'', mat_name = '''', wireframe = False, mat_color = 0xcccccc,
      flatShading = True, map_texture = None\<rparr>"

text \<open>\<open>new THREE.MeshStandardMaterial({ color: 0xcccccc })\<close>\<close>

definition defaultMaterial :: material where
  "defaultMaterial =
     \<lparr>mat_type = ''MeshStandardMaterial'', mat_name = '''', wireframe = False, mat_color = 0xcccccc,
      flatShading = False, map_texture = None\<rparr>"

text \<open>What the traversal callback of \<open>GLTFModel\<close> leaves in \<open>mesh.material\<close>.\<close>

definition GLTF_material :: "string \<Rightarrow> mesh_material \<Rightarrow> mesh_material" where
  "GLTF_material renderMode m =
     (if renderMode = ''wireframe'' then Single wireframeMaterial
      else if renderMode = ''solid'' then Single solidMaterial
      else m)"

text \<open>
  The same for \<open>OBJModel\<close>, with its extra branch for \<open>textured\<close>.  An array has no
  \<open>name\<close>, so the comparison of the name with the empty string is false for it.
\<close>

definition OBJ_material :: "string \<Rightarrow> mesh_material \<Rightarrow> mesh_material" where
  "OBJ_material renderMode m =
     (if renderMode = ''wireframe'' then Single wireframeMaterial
      else if renderMode = ''solid'' then Single solidMaterial
      else if renderMode = ''textured'' then
        (if m = NoMaterial
            \<or> (case m of Multi ms \<Rightarrow> length ms = 0 | _ \<Rightarrow> False)
            \<or> (case m of Single mat \<Rightarrow> mat_name mat = '''' | _ \<Rightarrow> False)
         then Single defaultMaterial
         else m)
      else m)"

text \<open>\<open>object.traverse(callback)\<close> with a callback that rewrites the material of meshes.\<close>

fun traverse :: "(mesh_material \<Rightarrow> mesh_material) \<Rightarrow> object3d \<Rightarrow> object3d" where
  "traverse f (Object3D mesh m cs) =
     Object3D mesh (if mesh then f m else m) (map (traverse f) cs)"

text \<open>The material effect of the two components, run for a scene and a render mode.\<close>

definition applyRenderMode_GLTF :: "string \<Rightarrow> object3d \<Rightarrow> object3d" where
  "applyRenderMode_GLTF renderMode scene = traverse (GLTF_material renderMode) scene"

definition applyRenderMode_OBJ :: "string \<Rightarrow> object3d \<Rightarrow> object3d" where
  "applyRenderMode_OBJ renderMode object = traverse (OBJ_material renderMode) object"

section \<open>Camera auto-fit\<close>

text \<open>
  The distance written to \<open>camera.position.z\<close>.  \<open>box_size\<close> is what \<open>box.getSize\<close> gives for
  the bounding box of the scene, and \<open>fov\<close> is \<open>camera.fov\<close>, in degrees.
\<close>

definition autoFit ::
  "(real \<Rightarrow> js_number) \<Rightarrow> (real \<Rightarrow> real) \<Rightarrow> Vector3 \<Rightarrow> js_number \<Rightarrow> js_number" where
  "autoFit rd sine box_size fov_degrees =
     (let maxDim = Math_max (vec_x box_size) (vec_y box_size) (vec_z box_size);
          fov = js_mul rd fov_degrees (js_div rd (Math_PI rd) (Fin 180));
          cameraZ = Math_abs (js_div rd maxDim (Math_sin sine (js_div rd fov (Fin 2))))
      in js_mul rd cameraZ (Fin (3 / 2)))"

section \<open>Screen and world coordinates\<close>

text \<open>
  A camera, as far as the two projection functions use it: its position and the two
  three.js methods \<open>Vector3.project(camera)\<close> and \<open>Vector3.unproject(camera)\<close>, which
  belong to three.js and are taken as given.
\<close>

record camera =
  cam_position :: Vector3
  cam_project :: "Vector3 \<Rightarrow> Vector3"
  cam_unproject :: "Vector3 \<Rightarrow> Vector3"

text \<open>The normalised device coordinates set from the screen coordinates.\<close>

definition deviceCoordinates ::
  "(real \<Rightarrow> js_number) \<Rightarrow> js_number \<Rightarrow> js_number \<Rightarrow> js_number \<Rightarrow> js_number \<Rightarrow> js_number
    \<Rightarrow> Vector3" where
  "deviceCoordinates rd screenX screenY clientWidth clientHeight depth =
     \<lparr>vec_x = js_sub rd (js_mul rd (js_div rd screenX clientWidth) (Fin 2)) (Fin 1),
      vec_y = js_add rd (js_mul rd (js_neg (js_div rd screenY clientHeight)) (Fin 2)) (Fin 1),
      vec_z = depth\<rparr>"

text \<open>The normalised ray direction \<open>dir\<close> from the camera to the unprojected point.\<close>

definition rayDirection ::
  "(real \<Rightarrow> js_number) \<Rightarrow> js_number \<Rightarrow> js_number \<Rightarrow> camera \<Rightarrow> js_number \<Rightarrow> js_number
    \<Rightarrow> js_number \<Rightarrow> Vector3" where
  "rayDirection rd screenX screenY cam clientWidth clientHeight depth =
     normalize_vec rd
       (vec_sub rd (cam_unproject cam
                      (deviceCoordinates rd screenX screenY clientWidth clientHeight depth))
          (cam_position cam))"

definition screenToWorld ::
  "(real \<Rightarrow> js_number) \<Rightarrow> js_number \<Rightarrow> js_number \<Rightarrow> camera \<Rightarrow> js_number \<Rightarrow> js_number
    \<Rightarrow> js_number \<Rightarrow> Vector3" where
  "screenToWorld rd screenX screenY cam clientWidth clientHeight depth =
     (let dir = rayDirection rd screenX screenY cam clientWidth clientHeight depth;
          distance = js_div rd (js_sub rd depth (vec_z (cam_position cam))) (vec_z dir);
          pos = vec_add rd (cam_position cam) (multiplyScalar rd dir distance)
      in pos)"


section \<open>An orthographic camera\<close>

definition finite_vec :: "Vector3 \<Rightarrow> bool" where
  "finite_vec v = (is_finite (vec_x v) \<and> is_finite (vec_y v) \<and> is_finite (vec_z v))"




section \<open>Facts about the string helpers\<close>

lemma split_not_Nil: "split c s \<noteq> []"
  by (induction s) (auto split: list.splits)

lemma split_without_separator: "c \<notin> set s \<Longrightarrow> split c s = [s]"
  by (induction s) (auto split: list.splits)

lemma split_at_separator: "split c (xs @ c # ys) = split c xs @ split c ys"
  by (induction xs) (auto split: list.splits simp: split_not_Nil)

lemma pop_split: "pop (split c s) = Some (last (split c s))"
  by (simp add: pop_def split_not_Nil)

lemma split_snoc:
  "x \<noteq> c \<Longrightarrow> split c (xs @ [x]) = butlast (split c xs) @ [last (split c xs) @ [x]]"
proof (induction xs)
  case Nil
  then show ?case by simp
next
  case (Cons y ys)
  then show ?case
    by (cases "split c ys") (auto simp: split_not_Nil split: list.splits)
qed

lemma last_split_empty_iff: "last (split c s) = [] \<longleftrightarrow> s = [] \<or> last s = c"
proof (cases s rule: rev_cases)
  case Nil
  then show ?thesis by simp
next
  case (snoc xs x)
  show ?thesis
  proof (cases "x = c")
    case True
    with snoc show ?thesis by (simp add: split_at_separator)
  next
    case False
    with snoc show ?thesis by (simp add: split_snoc)
  qed
qed

lemma supported_facts:
  "e \<in> set supportedFormats \<Longrightarrow> CHR ''.'' \<notin> set e \<and> e \<noteq> [] \<and> toLowerCase e = e"
  by (auto simp: supportedFormats_def toLowerCase_def lower_char_def)

lemma toLowerCase_Nil_iff: "toLowerCase s = [] \<longleftrightarrow> s = []"
  by (simp add: toLowerCase_def)

lemma name_extension_eq: "name_extension f = Some (toLowerCase (last (split CHR ''.'' (file_name f))))"
  by (simp add: name_extension_def pop_split)

lemma name_extension_suffix:
  "CHR ''.'' \<notin> set suf \<Longrightarrow> file_name f = stem @ ''.'' @ suf \<Longrightarrow>
   name_extension f = Some (toLowerCase suf)"
  by (simp add: name_extension_eq split_at_separator split_without_separator)

lemma extension_truthy_name:
  "truthy (name_extension f) \<Longrightarrow> extension f = name_extension f"
  by (simp add: extension_def)


lemma extension_supported_truthy:
  "extension f = Some e \<Longrightarrow> e \<in> set supportedFormats \<Longrightarrow>
   truthy (extension f) \<and> the (extension f) \<in> set supportedFormats"
  by (auto simp: truthy_def dest: supported_facts)

lemma loadModel_too_large:
  "MAX_SIZE < file_size f \<Longrightarrow>
   loadModel f created (s, b) = (s\<lparr>error := Some ''File size exceeds 100MB limit''\<rparr>, b)"
  by (simp add: loadModel_def)

lemma loadModel_unsupported:
  "file_size f \<le> MAX_SIZE \<Longrightarrow>
   \<not> truthy (extension f) \<or> the (extension f) \<notin> set supportedFormats \<Longrightarrow>
   loadModel f created (s, b) =
     (s\<lparr>error := Some (''Unsupported file format: .'' @ interpolate (extension f))\<rparr>, b)"
  by (auto simp: loadModel_def Let_def)

lemma loadModel_accepted:
  "file_size f \<le> MAX_SIZE \<Longrightarrow> extension f = Some e \<Longrightarrow> e \<in> set supportedFormats \<Longrightarrow>
   loadModel f (Some u) (s, b) =
     (s\<lparr>isLoading := False, error := None, modelUrl := Some u,
        fileName := Some (file_name f), fileType := Some e\<rparr>,
      setItem (''fileType_'' @ u) e
        ((if blob_url (modelUrl s) then revokeObjectURL (the (modelUrl s)) b else b)
          \<lparr>liveUrls := liveUrls (if blob_url (modelUrl s) then revokeObjectURL (the (modelUrl s)) b else b) @ [u]\<rparr>))"
  using extension_supported_truthy[of f e]
  by (simp add: loadModel_def Let_def)

lemma loadModel_create_throws:
  "file_size f \<le> MAX_SIZE \<Longrightarrow> extension f = Some e \<Longrightarrow> e \<in> set supportedFormats \<Longrightarrow>
   loadModel f None (s, b) =
     (s\<lparr>isLoading := False, error := Some ''Error loading model file''\<rparr>,
      if blob_url (modelUrl s) then revokeObjectURL (the (modelUrl s)) b else b)"
  using extension_supported_truthy[of f e]
  by (simp add: loadModel_def Let_def)

lemma fileExtension_stored:
  "u \<noteq> [] \<Longrightarrow> e \<noteq> [] \<Longrightarrow> fileExtension search (setItem (''fileType_'' @ u) e b) u = e"
  by (simp add: fileExtension_def getItem_def setItem_def truthy_def or_empty_def)

lemma name_extension_file_type: "name_extension (f\<lparr>file_type := t\<rparr>) = name_extension f"
  by (simp add: name_extension_def)

section \<open>Size limit and format resolution in \<open>loadModel\<close>\<close>

text \<open>
  Claim C5.  A file larger than 100 MB (100 * 1024 * 1024 bytes) is rejected with the
  size-limit message and nothing else happens: the result does not depend on what
  \<open>URL.createObjectURL\<close> would give, and the browser (session storage, live object URLs)
  and every other field of the hook state are unchanged.  A file of exactly 100 MB passes
  the size check: it never gets the size-limit message, and with a supported extension its
  object URL is created and becomes the model URL.
\<close>

theorem loadModel_size_limit:
  assumes "file_size f > 100 * 1024 * 1024" and "file_size g = 100 * 1024 * 1024"
  shows "loadModel f created (s, b) = (s\<lparr>error := Some ''File size exceeds 100MB limit''\<rparr>, b)
    \<and> error (fst (loadModel g created (s, b))) \<noteq> Some ''File size exceeds 100MB limit''
    \<and> (extension g = Some e \<and> e \<in> set supportedFormats \<longrightarrow>
          modelUrl (fst (loadModel g (Some u) (s, b))) = Some u
          \<and> error (fst (loadModel g (Some u) (s, b))) = None
          \<and> u \<in> set (liveUrls (snd (loadModel g (Some u) (s, b)))))"
proof -
  have big: "MAX_SIZE < file_size f" and ok: "file_size g \<le> MAX_SIZE"
    using assms by (simp_all add: MAX_SIZE_def)
  have 1: "loadModel f created (s, b) = (s\<lparr>error := Some ''File size exceeds 100MB limit''\<rparr>, b)"
    by (rule loadModel_too_large[OF big])
  have 2: "error (fst (loadModel g created (s, b))) \<noteq> Some ''File size exceeds 100MB limit''"
  proof (cases "\<not> truthy (extension g) \<or> the (extension g) \<notin> set supportedFormats")
    case True
    then show ?thesis by (simp add: loadModel_unsupported[OF ok])
  next
    case False
    then obtain e where e: "extension g = Some e" "e \<in> set supportedFormats"
      by (cases "extension g") (auto simp: truthy_def)
    show ?thesis
      by (cases created) (simp_all add: loadModel_accepted[OF ok e] loadModel_create_throws[OF ok e])
  qed
  have 3: "extension g = Some e \<and> e \<in> set supportedFormats \<longrightarrow>
          modelUrl (fst (loadModel g (Some u) (s, b))) = Some u
          \<and> error (fst (loadModel g (Some u) (s, b))) = None
          \<and> u \<in> set (liveUrls (snd (loadModel g (Some u) (s, b))))"
    by (auto simp: loadModel_accepted[OF ok] setItem_def)
  from 1 2 3 show ?thesis by blast
qed

theorem loadModel_size_limit_witness:
  "loadModel \<lparr>file_name = ''big.glb'', file_size = 104857601, file_type = ''''\<rparr> (Some ''blob:n'')
      (\<lparr>modelUrl = None, isLoading = False, error = None, fileName = None, fileType = None\<rparr>,
       \<lparr>sessionStorage = Map.empty, liveUrls = []\<rparr>)
    = (\<lparr>modelUrl = None, isLoading = False, error = Some ''File size exceeds 100MB limit'',
        fileName = None, fileType = None\<rparr>,
       \<lparr>sessionStorage = Map.empty, liveUrls = []\<rparr>)
   \<and> modelUrl (fst (loadModel \<lparr>file_name = ''full.glb'', file_size = 104857600, file_type = ''''\<rparr>
      (Some ''blob:n'')
      (\<lparr>modelUrl = None, isLoading = False, error = None, fileName = None, fileType = None\<rparr>,
       \<lparr>sessionStorage = Map.empty, liveUrls = []\<rparr>))) = Some ''blob:n''"
proof -
  have e: "extension \<lparr>file_name = ''full.glb'', file_size = 104857600, file_type = ''''\<rparr> = Some ''glb''"
    by (simp add: extension_def name_extension_def pop_def toLowerCase_def lower_char_def truthy_def)
  show ?thesis
    using loadModel_size_limit[of "\<lparr>file_name = ''big.glb'', file_size = 104857601, file_type = ''''\<rparr>"
        "\<lparr>file_name = ''full.glb'', file_size = 104857600, file_type = ''''\<rparr>"
        "Some ''blob:n''"
        "\<lparr>modelUrl = None, isLoading = False, error = None, fileName = None, fileType = None\<rparr>"
        "\<lparr>sessionStorage = Map.empty, liveUrls = []\<rparr>" "''glb''" "''blob:n''"] e
    by (simp add: supportedFormats_def)
qed

text \<open>
  Claim C4.  A name that ends in a dot followed by one of the supported suffixes resolves
  to that suffix whatever the MIME type is; \<open>loadModel\<close> stores it as the file type and
  under the new object URL, and \<open>Model\<close> reads it back from there whatever the URL text
  is.  A name whose last piece is non-empty never reaches the MIME type; a name that
  yields no suffix resolves through the MIME subtype, \<open>gltf+json\<close> to \<open>gltf\<close> and
  \<open>gltf-binary\<close> to \<open>glb\<close>.
\<close>

theorem resolve_priority_chain:
  assumes "suf \<in> set supportedFormats"
    and "file_name f = stem @ ''.'' @ suf"
    and "file_size f \<le> 100 * 1024 * 1024"
    and "u \<noteq> []"
    and "truthy (name_extension h)"
    and "\<not> truthy (name_extension g)"
  shows "extension f = Some suf
    \<and> fileType (fst (loadModel f (Some u) (s, b))) = Some suf
    \<and> fileExtension search (snd (loadModel f (Some u) (s, b))) u = suf
    \<and> extension h = name_extension h
    \<and> extension (g\<lparr>file_type := ''model/gltf+json''\<rparr>) = Some ''gltf''
    \<and> extension (g\<lparr>file_type := ''model/gltf-binary''\<rparr>) = Some ''glb''"
proof -
  from assms(1) have suf: "CHR ''.'' \<notin> set suf" "suf \<noteq> []" "toLowerCase suf = suf"
    using supported_facts by blast+
  have ne: "name_extension f = Some suf"
    using name_extension_suffix[OF suf(1) assms(2)] suf(3) by simp
  have 1: "extension f = Some suf"
    using ne suf(2) by (simp add: extension_def truthy_def)
  have ok: "file_size f \<le> MAX_SIZE"
    using assms(3) by (simp add: MAX_SIZE_def)
  note acc = loadModel_accepted[OF ok 1 assms(1)]
  have 2: "fileType (fst (loadModel f (Some u) (s, b))) = Some suf"
    by (simp add: acc)
  have 3: "fileExtension search (snd (loadModel f (Some u) (s, b))) u = suf"
    unfolding acc snd_conv by (rule fileExtension_stored[OF assms(4) suf(2)])
  have 4: "extension h = name_extension h"
    by (rule extension_truthy_name[OF assms(5)])
  have 5: "extension (g\<lparr>file_type := ''model/gltf+json''\<rparr>) = Some ''gltf''"
    using assms(6)
    by (simp add: extension_def name_extension_file_type mime_extension_def startsWith_def at_index_def)
  have 6: "extension (g\<lparr>file_type := ''model/gltf-binary''\<rparr>) = Some ''glb''"
    using assms(6)
    by (simp add: extension_def name_extension_file_type mime_extension_def startsWith_def at_index_def)
  from 1 2 3 4 5 6 show ?thesis by blast
qed

theorem resolve_priority_chain_witness:
  "extension \<lparr>file_name = ''scene.v2.obj'', file_size = 10, file_type = ''model/gltf-binary''\<rparr> = Some ''obj''
   \<and> fileExtension id
        (snd (loadModel \<lparr>file_name = ''scene.v2.obj'', file_size = 10, file_type = ''model/gltf-binary''\<rparr>
           (Some ''blob:http://host/1234.glb'')
           (\<lparr>modelUrl = None, isLoading = False, error = None, fileName = None, fileType = None\<rparr>,
            \<lparr>sessionStorage = Map.empty, liveUrls = []\<rparr>)))
        ''blob:http://host/1234.glb'' = ''obj''
   \<and> extension \<lparr>file_name = ''a.xyz'', file_size = 10, file_type = ''model/gltf-binary''\<rparr> = Some ''xyz''
   \<and> extension \<lparr>file_name = '''', file_size = 10, file_type = ''model/gltf+json''\<rparr> = Some ''gltf''
   \<and> extension \<lparr>file_name = '''', file_size = 10, file_type = ''model/gltf-binary''\<rparr> = Some ''glb''"
  using resolve_priority_chain[of "''obj''"
      "\<lparr>file_name = ''scene.v2.obj'', file_size = 10, file_type = ''model/gltf-binary''\<rparr>"
      "''scene.v2''" "''blob:http://host/1234.glb''"
      "\<lparr>file_name = ''a.xyz'', file_size = 10, file_type = ''model/gltf-binary''\<rparr>"
      "\<lparr>file_name = '''', file_size = 10, file_type = ''application/octet-stream''\<rparr>"
      "\<lparr>modelUrl = None, isLoading = False, error = None, fileName = None, fileType = None\<rparr>"
      "\<lparr>sessionStorage = Map.empty, liveUrls = []\<rparr>" id]
  by (simp add: supportedFormats_def name_extension_def pop_def toLowerCase_def lower_char_def truthy_def)

text \<open>
  Claim C9, as stated, says the MIME type is consulted only for the empty file name.  It is
  also consulted for a non-empty name that ends in a dot: the piece after the last dot is
  the empty string, which is falsy.
\<close>

theorem mime_fallback_counterexample:
  "file_name \<lparr>file_name = ''model.'', file_size = 10, file_type = ''model/gltf-binary''\<rparr> \<noteq> ''''
   \<and> name_extension \<lparr>file_name = ''model.'', file_size = 10, file_type = ''model/gltf-binary''\<rparr> = Some ''''
   \<and> extension \<lparr>file_name = ''model.'', file_size = 10, file_type = ''model/gltf-binary''\<rparr> = Some ''glb''
   \<and> fileType (fst (loadModel \<lparr>file_name = ''model.'', file_size = 10, file_type = ''model/gltf-binary''\<rparr>
        (Some ''blob:n'')
        (\<lparr>modelUrl = None, isLoading = False, error = None, fileName = None, fileType = None\<rparr>,
         \<lparr>sessionStorage = Map.empty, liveUrls = []\<rparr>))) = Some ''glb''"
  by (simp add: loadModel_def MAX_SIZE_def supportedFormats_def extension_def name_extension_def
      mime_extension_def at_index_def startsWith_def pop_def toLowerCase_def truthy_def
      blob_url_def Let_def)

text \<open>
  Claim C9, amended.  The MIME type is consulted only when the piece of the name after its
  last dot is empty, that is, for the empty name and for names ending in a dot (and then
  only when the MIME type starts with \<open>model/\<close>).  For a non-empty name without a dot the
  whole name, lower-cased, is the candidate suffix: a file named \<open>model\<close> with MIME type
  \<open>model/gltf-binary\<close> is rejected as unsupported, and a file named \<open>obj\<close> is accepted
  as \<open>obj\<close>.
\<close>

theorem mime_fallback_condition:
  assumes "CHR ''.'' \<notin> set (file_name f)" and "file_name f \<noteq> []"
    and "extension h \<noteq> name_extension h"
    and "n \<le> 100 * 1024 * 1024"
  shows "extension f = Some (toLowerCase (file_name f))
    \<and> (file_name h = [] \<or> last (file_name h) = CHR ''.'')
    \<and> startsWith (file_type h) ''model/''
    \<and> loadModel \<lparr>file_name = ''model'', file_size = n, file_type = ''model/gltf-binary''\<rparr> created (s, b)
        = (s\<lparr>error := Some ''Unsupported file format: .model''\<rparr>, b)
    \<and> fileType (fst (loadModel \<lparr>file_name = ''obj'', file_size = n, file_type = t\<rparr> (Some u) (s, b)))
        = Some ''obj''"
proof -
  have 1: "extension f = Some (toLowerCase (file_name f))"
    using assms(1,2)
    by (simp add: extension_def name_extension_eq split_without_separator truthy_def
        toLowerCase_Nil_iff)
  have falsy: "\<not> truthy (name_extension h)"
    using assms(3) extension_truthy_name by blast
  then have "last (split CHR ''.'' (file_name h)) = []"
    by (simp add: name_extension_eq truthy_def toLowerCase_Nil_iff)
  then have 2: "file_name h = [] \<or> last (file_name h) = CHR ''.''"
    by (simp add: last_split_empty_iff)
  have 3: "startsWith (file_type h) ''model/''"
    using assms(3) by (auto simp: extension_def Let_def split: if_splits)
  have ok: "n \<le> MAX_SIZE"
    using assms(4) by (simp add: MAX_SIZE_def)
  have e4: "extension \<lparr>file_name = ''model'', file_size = n, file_type = ''model/gltf-binary''\<rparr>
      = Some ''model''"
    by (simp add: extension_def name_extension_def pop_def toLowerCase_def lower_char_def truthy_def)
  have 4: "loadModel \<lparr>file_name = ''model'', file_size = n, file_type = ''model/gltf-binary''\<rparr> created (s, b)
        = (s\<lparr>error := Some ''Unsupported file format: .model''\<rparr>, b)"
    using loadModel_unsupported[of "\<lparr>file_name = ''model'', file_size = n, file_type = ''model/gltf-binary''\<rparr>"
        created s b] ok
    by (simp add: e4 supportedFormats_def interpolate_def)
  have e5: "extension \<lparr>file_name = ''obj'', file_size = n, file_type = t\<rparr> = Some ''obj''"
    by (simp add: extension_def name_extension_def pop_def toLowerCase_def lower_char_def truthy_def)
  have 5: "fileType (fst (loadModel \<lparr>file_name = ''obj'', file_size = n, file_type = t\<rparr> (Some u) (s, b)))
        = Some ''obj''"
    using loadModel_accepted[of "\<lparr>file_name = ''obj'', file_size = n, file_type = t\<rparr>" "''obj''" u s b] ok e5
    by (simp add: supportedFormats_def)
  from 1 2 3 4 5 show ?thesis by blast
qed

theorem mime_fallback_condition_witness:
  "extension \<lparr>file_name = ''Model'', file_size = 10, file_type = ''model/gltf-binary''\<rparr> = Some ''model''
   \<and> last ''model.'' = CHR ''.''
   \<and> error (fst (loadModel \<lparr>file_name = ''model'', file_size = 10, file_type = ''model/gltf-binary''\<rparr>
        (Some ''blob:n'')
        (\<lparr>modelUrl = None, isLoading = False, error = None, fileName = None, fileType = None\<rparr>,
         \<lparr>sessionStorage = Map.empty, liveUrls = []\<rparr>))) = Some ''Unsupported file format: .model''"
proof -
  have h: "extension \<lparr>file_name = ''model.'', file_size = 10, file_type = ''model/gltf-binary''\<rparr>
      \<noteq> name_extension \<lparr>file_name = ''model.'', file_size = 10, file_type = ''model/gltf-binary''\<rparr>"
    by (simp add: extension_def name_extension_def mime_extension_def at_index_def startsWith_def
        pop_def toLowerCase_def truthy_def)
  show ?thesis
    using mime_fallback_condition[of
        "\<lparr>file_name = ''Model'', file_size = 10, file_type = ''model/gltf-binary''\<rparr>"
        "\<lparr>file_name = ''model.'', file_size = 10, file_type = ''model/gltf-binary''\<rparr>"
        10 "Some ''blob:n''"
        "\<lparr>modelUrl = None, isLoading = False, error = None, fileName = None, fileType = None\<rparr>"
        "\<lparr>sessionStorage = Map.empty, liveUrls = []\<rparr>" "''''" "''blob:n''", OF _ _ h]
    by (simp add: toLowerCase_def lower_char_def)
qed

section \<open>Loader dispatch\<close>

text \<open>
  Claim C6.  A URL whose extension resolves to \<open>stl\<close> or \<open>fbx\<close> renders the placeholder,
  whose message names the format, and never an error message; a URL whose extension is
  none of the five recognised ones renders the unsupported-format error message, which is
  never a placeholder.
\<close>

theorem dispatch_placeholder_vs_unsupported:
  assumes "fileExtension search b u1 = ''stl''"
    and "fileExtension search b u2 = ''fbx''"
    and "fileExtension search b u3 \<notin> set supportedFormats"
  shows "Model search b u1 renderMode = PlaceholderModel ''STL format support coming soon''
    \<and> Model search b u2 renderMode = PlaceholderModel ''FBX format support coming soon''
    \<and> Model search b u3 renderMode =
        ErrorMessage (''Unsupported file format: '' @
          (if fileExtension search b u3 \<noteq> [] then fileExtension search b u3 else ''unknown''))
    \<and> (\<forall>m. Model search b u3 renderMode \<noteq> PlaceholderModel m)
    \<and> (\<forall>m. Model search b u1 renderMode \<noteq> ErrorMessage m)
    \<and> (\<forall>m. Model search b u2 renderMode \<noteq> ErrorMessage m)"
  using assms by (simp add: Model_def dispatch_def supportedFormats_def)

theorem dispatch_placeholder_vs_unsupported_witness:
  "Model id \<lparr>sessionStorage = Map.empty, liveUrls = []\<rparr> ''https://host/part.STL?v=2'' ''textured''
      = PlaceholderModel ''STL format support coming soon''
   \<and> Model id \<lparr>sessionStorage = Map.empty, liveUrls = []\<rparr> ''https://host/rig.fbx'' ''textured''
      = PlaceholderModel ''FBX format support coming soon''
   \<and> Model id \<lparr>sessionStorage = Map.empty, liveUrls = []\<rparr> ''https://host/scan.ply'' ''textured''
      = ErrorMessage ''Unsupported file format: ply''"
proof -
  have 1: "fileExtension id \<lparr>sessionStorage = Map.empty, liveUrls = []\<rparr> ''https://host/part.STL?v=2'' = ''stl''"
    by (simp add: fileExtension_def getItem_def truthy_def startsWith_def at_index_def or_empty_def
        last_piece_def pop_def toLowerCase_def lower_char_def)
  have 2: "fileExtension id \<lparr>sessionStorage = Map.empty, liveUrls = []\<rparr> ''https://host/rig.fbx'' = ''fbx''"
    by (simp add: fileExtension_def getItem_def truthy_def startsWith_def at_index_def or_empty_def
        last_piece_def pop_def toLowerCase_def lower_char_def)
  have 3: "fileExtension id \<lparr>sessionStorage = Map.empty, liveUrls = []\<rparr> ''https://host/scan.ply'' = ''ply''"
    by (simp add: fileExtension_def getItem_def truthy_def startsWith_def at_index_def or_empty_def
        last_piece_def pop_def toLowerCase_def lower_char_def)
  show ?thesis
    using dispatch_placeholder_vs_unsupported[of id "\<lparr>sessionStorage = Map.empty, liveUrls = []\<rparr>"
        "''https://host/part.STL?v=2''" "''https://host/rig.fbx''" "''https://host/scan.ply''" "''textured''"]
    by (simp add: 1 2 3 supportedFormats_def)
qed

section \<open>Replacing the displayed model\<close>

text \<open>
  Claim C3, as stated, fails.  A model \<open>good.obj\<close> is displayed from \<open>blob:old\<close>; the
  user loads \<open>broken.obj\<close>, whose name and size are fine and whose content does not
  parse.  \<open>loadModel\<close> has already revoked \<open>blob:old\<close> and switched the model URL to the
  new object URL before any parsing starts; the viewer dispatches the new URL to the OBJ
  component, and when the OBJ loader reports its error the component, which still holds the
  old parsed object in its state, renders the error message instead of it.
\<close>

theorem failed_replacement_counterexample:
  "modelUrl (fst (loadModel \<lparr>file_name = ''broken.obj'', file_size = 10, file_type = ''''\<rparr>
      (Some ''blob:new'')
      (\<lparr>modelUrl = Some ''blob:old'', isLoading = False, error = None,
         fileName = Some ''good.obj'', fileType = Some ''obj''\<rparr>,
       \<lparr>sessionStorage = [''fileType_blob:old'' \<mapsto> ''obj''], liveUrls = [''blob:old'']\<rparr>)))
     = Some ''blob:new''
   \<and> liveUrls (snd (loadModel \<lparr>file_name = ''broken.obj'', file_size = 10, file_type = ''''\<rparr>
      (Some ''blob:new'')
      (\<lparr>modelUrl = Some ''blob:old'', isLoading = False, error = None,
         fileName = Some ''good.obj'', fileType = Some ''obj''\<rparr>,
       \<lparr>sessionStorage = [''fileType_blob:old'' \<mapsto> ''obj''], liveUrls = [''blob:old'']\<rparr>)))
     = [''blob:new'']
   \<and> Model id (snd (loadModel \<lparr>file_name = ''broken.obj'', file_size = 10, file_type = ''''\<rparr>
      (Some ''blob:new'')
      (\<lparr>modelUrl = Some ''blob:old'', isLoading = False, error = None,
         fileName = Some ''good.obj'', fileType = Some ''obj''\<rparr>,
       \<lparr>sessionStorage = [''fileType_blob:old'' \<mapsto> ''obj''], liveUrls = [''blob:old'']\<rparr>)))
      ''blob:new'' ''textured''
     = OBJModel ''blob:new'' ''textured''
   \<and> render_OBJModel (loadOBJ OnError \<lparr>obj = Some ''good scene'', obj_error = None, loading = False\<rparr>)
     = ErrorView ''Failed to load OBJ model''"
  by (simp add: loadModel_def MAX_SIZE_def supportedFormats_def extension_def name_extension_def
      pop_def toLowerCase_def lower_char_def truthy_def blob_url_def startsWith_def Let_def
      revokeObjectURL_def setItem_def Model_def dispatch_def fileExtension_def getItem_def
      or_empty_def render_OBJModel_def loadOBJ_def)

text \<open>
  Claim C3, amended.  A replacement load that \<open>loadModel\<close> itself rejects (size limit, or
  no supported extension) leaves the active model untouched: only the error message of the
  hook state changes, and the session storage and the live object URLs stay as they are.
  A replacement that passes these checks replaces the active model at once, before
  anything is parsed: the previous blob URL is revoked (also when creating the new object
  URL throws) and the model URL and file type become the new file's, so that a later parse
  failure of the OBJ loader shows the error message, whatever the component held before.
\<close>

theorem replacement_load:
  assumes "file_size f > 100 * 1024 * 1024 \<or> \<not> truthy (extension f)
      \<or> the (extension f) \<notin> set supportedFormats"
    and "file_size g \<le> 100 * 1024 * 1024"
    and "extension g = Some e" and "e \<in> set supportedFormats"
    and "modelUrl s = Some old" and "startsWith old ''blob:''" and "old \<noteq> []" and "u \<noteq> old"
  shows "(\<exists>msg. loadModel f created (s, b) = (s\<lparr>error := Some msg\<rparr>, b))
    \<and> modelUrl (fst (loadModel g (Some u) (s, b))) = Some u
    \<and> fileType (fst (loadModel g (Some u) (s, b))) = Some e
    \<and> old \<notin> set (liveUrls (snd (loadModel g (Some u) (s, b))))
    \<and> old \<notin> set (liveUrls (snd (loadModel g None (s, b))))
    \<and> render_OBJModel (loadOBJ OnError os) = ErrorView ''Failed to load OBJ model''"
proof -
  have 1: "\<exists>msg. loadModel f created (s, b) = (s\<lparr>error := Some msg\<rparr>, b)"
  proof (cases "file_size f > MAX_SIZE")
    case True
    then show ?thesis using loadModel_too_large by blast
  next
    case False
    then have "file_size f \<le> MAX_SIZE" by simp
    moreover from False assms(1)
    have "\<not> truthy (extension f) \<or> the (extension f) \<notin> set supportedFormats"
      by (simp add: MAX_SIZE_def)
    ultimately show ?thesis using loadModel_unsupported by blast
  qed
  have ok: "file_size g \<le> MAX_SIZE"
    using assms(2) by (simp add: MAX_SIZE_def)
  have blob: "blob_url (modelUrl s)"
    using assms(5,6,7) by (simp add: blob_url_def)
  note acc = loadModel_accepted[OF ok assms(3,4)]
  have 2: "modelUrl (fst (loadModel g (Some u) (s, b))) = Some u"
    and 3: "fileType (fst (loadModel g (Some u) (s, b))) = Some e"
    by (simp_all add: acc)
  have 4: "old \<notin> set (liveUrls (snd (loadModel g (Some u) (s, b))))"
    using blob assms(5,8) by (simp add: acc setItem_def revokeObjectURL_def)
  have 5: "old \<notin> set (liveUrls (snd (loadModel g None (s, b))))"
    using blob assms(5) by (simp add: loadModel_create_throws[OF ok assms(3,4)] revokeObjectURL_def)
  have 6: "render_OBJModel (loadOBJ OnError os) = ErrorView ''Failed to load OBJ model''"
    by (simp add: render_OBJModel_def loadOBJ_def truthy_def or_empty_def)
  from 1 2 3 4 5 6 show ?thesis by blast
qed

theorem replacement_load_witness:
  "(\<exists>msg. loadModel \<lparr>file_name = ''notes.txt'', file_size = 10, file_type = ''text/plain''\<rparr> None
      (\<lparr>modelUrl = Some ''blob:old'', isLoading = False, error = None,
         fileName = Some ''good.obj'', fileType = Some ''obj''\<rparr>,
       \<lparr>sessionStorage = [''fileType_blob:old'' \<mapsto> ''obj''], liveUrls = [''blob:old'']\<rparr>)
     = (\<lparr>modelUrl = Some ''blob:old'', isLoading = False, error = Some msg,
         fileName = Some ''good.obj'', fileType = Some ''obj''\<rparr>,
       \<lparr>sessionStorage = [''fileType_blob:old'' \<mapsto> ''obj''], liveUrls = [''blob:old'']\<rparr>))
   \<and> ''blob:old'' \<notin> set (liveUrls (snd (loadModel
        \<lparr>file_name = ''broken.obj'', file_size = 10, file_type = ''''\<rparr> (Some ''blob:new'')
        (\<lparr>modelUrl = Some ''blob:old'', isLoading = False, error = None,
           fileName = Some ''good.obj'', fileType = Some ''obj''\<rparr>,
         \<lparr>sessionStorage = [''fileType_blob:old'' \<mapsto> ''obj''], liveUrls = [''blob:old'']\<rparr>))))"
proof -
  let ?f = "\<lparr>file_name = ''notes.txt'', file_size = 10, file_type = ''text/plain''\<rparr>"
  let ?g = "\<lparr>file_name = ''broken.obj'', file_size = 10, file_type = ''''\<rparr>"
  let ?s = "\<lparr>modelUrl = Some ''blob:old'', isLoading = False, error = None,
           fileName = Some ''good.obj'', fileType = Some ''obj''\<rparr>"
  let ?b = "\<lparr>sessionStorage = [''fileType_blob:old'' \<mapsto> ''obj''], liveUrls = [''blob:old'']\<rparr>"
  have "the (extension ?f) \<notin> set supportedFormats"
    by (simp add: supportedFormats_def extension_def name_extension_def pop_def toLowerCase_def
        lower_char_def truthy_def)
  then have h1: "file_size ?f > 100 * 1024 * 1024 \<or> \<not> truthy (extension ?f)
      \<or> the (extension ?f) \<notin> set supportedFormats"
    by blast
  have h2: "file_size ?g \<le> 100 * 1024 * 1024" by simp
  have h3: "extension ?g = Some ''obj''"
    by (simp add: extension_def name_extension_def pop_def toLowerCase_def lower_char_def truthy_def)
  have h4: "''obj'' \<in> set supportedFormats" by (simp add: supportedFormats_def)
  have h5: "modelUrl ?s = Some ''blob:old''" by simp
  have h6: "startsWith ''blob:old'' ''blob:''" by (simp add: startsWith_def)
  have h7: "''blob:old'' \<noteq> []" by simp
  have h8: "''blob:new'' \<noteq> ''blob:old''" by simp
  from replacement_load[OF h1 h2 h3 h4 h5 h6 h7 h8, where created = None and b = ?b
      and os = "\<lparr>obj = Some (0::nat), obj_error = None, loading = False\<rparr>"]
  show ?thesis by simp
qed

section \<open>Facts about numbers\<close>

lemmas js_number_defs =
  is_nan_def is_inf_def is_finite_def is_zero_def val_def negative_def signed_zero_def
  signed_inf_def finite_result_def

lemma rounding_Fin: "rounding Fin"
  by (auto simp: rounding_def is_finite_def)

section \<open>Annotation identifiers\<close>

lemma digit_char_cases:
  "d < 10 \<Longrightarrow> d = 0 \<or> d = 1 \<or> d = 2 \<or> d = 3 \<or> d = 4 \<or> d = 5 \<or> d = 6 \<or> d = 7 \<or> d = 8 \<or> d = (9::nat)"
  by arith

lemma digit_char_not_dash:
  "d < 10 \<Longrightarrow> digit_char d \<noteq> CHR ''-''" "d < 10 \<Longrightarrow> CHR ''-'' \<noteq> digit_char d"
  using digit_char_cases[of d] by (auto simp: digit_char_def)

lemma digit_char_inj: "d < 10 \<Longrightarrow> e < 10 \<Longrightarrow> digit_char d = digit_char e \<Longrightarrow> d = e"
  using digit_char_cases[of d] digit_char_cases[of e] by (auto simp: digit_char_def)

lemma number_string_not_Nil: "number_string n \<noteq> []" "[] \<noteq> number_string n"
  by (subst number_string.simps, simp)+

lemma number_string_no_dash: "CHR ''-'' \<notin> set (number_string n)"
proof (induction n rule: number_string.induct)
  case (1 n)
  show ?case
  proof (cases "n < 10")
    case True
    then show ?thesis
      by (subst number_string.simps) (simp add: digit_char_not_dash)
  next
    case False
    with 1 show ?thesis
      by (subst number_string.simps) (simp add: digit_char_not_dash)
  qed
qed

lemma number_string_inj: "number_string m = number_string n \<Longrightarrow> m = n"
proof (induction m arbitrary: n rule: number_string.induct)
  case (1 m)
  show ?case
  proof (cases "m < 10")
    case m: True
    show ?thesis
    proof (cases "n < 10")
      case True
      with m "1.prems" show ?thesis
        by (simp add: number_string.simps[of m] number_string.simps[of n] digit_char_inj)
    next
      case False
      with m "1.prems" show ?thesis
        by (simp add: number_string.simps[of m] number_string.simps[of n] number_string_not_Nil)
    qed
  next
    case m: False
    show ?thesis
    proof (cases "n < 10")
      case True
      with m "1.prems" show ?thesis
        by (simp add: number_string.simps[of m] number_string.simps[of n] number_string_not_Nil)
    next
      case False
      with m "1.prems" have eq: "number_string (m div 10) = number_string (n div 10)"
        and d: "digit_char (m mod 10) = digit_char (n mod 10)"
        by (simp_all add: number_string.simps[of m] number_string.simps[of n])
      from "1.IH"[OF m eq] have "m div 10 = n div 10" .
      moreover from d have "m mod 10 = n mod 10"
        by (intro digit_char_inj) simp_all
      ultimately show ?thesis
        by (metis div_mult_mod_eq)
    qed
  qed
qed

lemma separated_eq:
  "c \<notin> set a \<Longrightarrow> c \<notin> set a' \<Longrightarrow> a @ c # b = a' @ c # b' \<Longrightarrow> a = a' \<and> b = b'"
proof (induction a arbitrary: a')
  case Nil
  then show ?case by (cases a') auto
next
  case (Cons x xs)
  then show ?case by (cases a') auto
qed

lemma random_suffix_nat:
  assumes "rounding rd" and "0 \<le> rnd" and "rnd < 1"
  obtains k :: nat where "random_suffix rd rnd = Fin (real k)"
proof (cases "rnd = 0")
  case True
  then have "random_suffix rd rnd = Fin (real (0::nat))"
    by (simp add: random_suffix_def Math_floor_def js_mul_def js_number_defs)
  then show thesis by (rule that)
next
  case False
  with assms(2) have pos: "0 < rnd * 1000" by simp
  have "rnd * 1000 \<le> 2 ^ 1023" using assms(3) by (simp add: order.trans[of _ 1000])
  with pos have "\<bar>rnd * 1000\<bar> \<le> 2 ^ 1023" by simp
  with assms(1) have fin: "is_finite (rd (rnd * 1000))"
    unfolding rounding_def by blast
  from assms(1) pos have "rd (rnd * 1000) = PInf \<or> (\<exists>q\<ge>0. rd (rnd * 1000) = Fin q)"
    unfolding rounding_def by blast
  with fin obtain q where q: "0 \<le> q" "rd (rnd * 1000) = Fin q"
    by (auto simp: is_finite_def)
  have "js_mul rd (Fin rnd) (Fin 1000) = Fin q"
    using False q(2) by (simp add: js_mul_def js_number_defs)
  then have "random_suffix rd rnd = Fin (of_int \<lfloor>q\<rfloor>)"
    by (simp add: random_suffix_def Math_floor_def)
  moreover have "of_int \<lfloor>q\<rfloor> = real (nat \<lfloor>q\<rfloor>)"
    using q(1) by simp
  ultimately have "random_suffix rd rnd = Fin (real (nat \<lfloor>q\<rfloor>))" by simp
  then show thesis by (rule that)
qed

lemma number_text_nat: "number_text (Fin (real k)) = number_string k"
  by (simp add: number_text_def)

lemma annotation_id_eq_iff:
  assumes "rounding rd" and "0 \<le> rnd" "rnd < 1" and "0 \<le> rnd'" "rnd' < 1"
  shows "annotation_id rd now rnd = annotation_id rd now' rnd' \<longleftrightarrow>
    now = now' \<and> random_suffix rd rnd = random_suffix rd rnd'"
proof -
  obtain k where k: "random_suffix rd rnd = Fin (real k)"
    using random_suffix_nat[OF assms(1,2,3)] by blast
  obtain k' where k': "random_suffix rd rnd' = Fin (real k')"
    using random_suffix_nat[OF assms(1,4,5)] by blast
  show ?thesis
  proof
    assume "annotation_id rd now rnd = annotation_id rd now' rnd'"
    then have "number_string now @ CHR ''-'' # number_string k
        = number_string now' @ CHR ''-'' # number_string k'"
      by (simp add: annotation_id_def k k' number_text_nat)
    then have "number_string now = number_string now' \<and> number_string k = number_string k'"
      by (rule separated_eq[OF number_string_no_dash number_string_no_dash])
    then have "now = now' \<and> k = k'"
      using number_string_inj by blast
    then show "now = now' \<and> random_suffix rd rnd = random_suffix rd rnd'"
      by (simp add: k k')
  next
    assume "now = now' \<and> random_suffix rd rnd = random_suffix rd rnd'"
    then show "annotation_id rd now rnd = annotation_id rd now' rnd'"
      by (simp add: annotation_id_def)
  qed
qed

lemma ann_id_added: "ann_id (snd (addAnnotation rd now rnd data anns)) = annotation_id rd now rnd"
  by (simp add: addAnnotation_def Let_def annotation_data.extend_def annotation.fields_def
        annotation_data.defs annotation.defs)

lemma data_added:
  "position (snd (addAnnotation rd now rnd data anns)) = position data"
  "title (snd (addAnnotation rd now rnd data anns)) = title data"
  "description (snd (addAnnotation rd now rnd data anns)) = description data"
  "color (snd (addAnnotation rd now rnd data anns)) = color data"
  by (simp_all add: addAnnotation_def Let_def annotation_data.extend_def annotation.fields_def
        annotation_data.defs annotation.defs)

lemma annotations_added:
  "fst (addAnnotation rd now rnd data anns) = anns @ [snd (addAnnotation rd now rnd data anns)]"
  by (simp add: addAnnotation_def Let_def)

lemma random_suffix_eighth:
  "random_suffix Fin (1 / 8) = Fin 125" "random_suffix Fin (129 / 1024) = Fin 125"
  "random_suffix Fin (1 / 4) = Fin 250"
  by (simp_all add: random_suffix_def Math_floor_def js_mul_def js_number_defs)

text \<open>
  Claim C8, as stated, fails in its first half.  The identifier is built from the clock
  and from \<open>Math.floor(Math.random() * 1000)\<close> only: two calls in the same millisecond
  whose random draws, here 1/8 and 129/1024, give products with the same floor (125 and
  125.9765625, both computed without rounding error) put two annotations with the same
  identifier into the list.
\<close>

theorem annotation_id_collision:
  "ann_id (snd (addAnnotation Fin 1700000000000 (1 / 8)
       \<lparr>position = \<lparr>vec_x = Fin 0, vec_y = Fin 0, vec_z = Fin 0\<rparr>, title = ''New Annotation'',
          description = ''Click to edit this annotation'', color = Some ''#3f51b5''\<rparr> []))
     = ''annotation-1700000000000-125''
   \<and> ann_id (snd (addAnnotation Fin 1700000000000 (129 / 1024)
       \<lparr>position = \<lparr>vec_x = Fin 0, vec_y = Fin 0, vec_z = Fin 0\<rparr>, title = ''New Annotation'',
          description = ''Click to edit this annotation'', color = Some ''#3f51b5''\<rparr>
       (fst (addAnnotation Fin 1700000000000 (1 / 8)
          \<lparr>position = \<lparr>vec_x = Fin 0, vec_y = Fin 0, vec_z = Fin 0\<rparr>, title = ''New Annotation'',
             description = ''Click to edit this annotation'', color = Some ''#3f51b5''\<rparr> []))))
     = ''annotation-1700000000000-125''
   \<and> map ann_id (fst (addAnnotation Fin 1700000000000 (129 / 1024)
       \<lparr>position = \<lparr>vec_x = Fin 0, vec_y = Fin 0, vec_z = Fin 0\<rparr>, title = ''New Annotation'',
          description = ''Click to edit this annotation'', color = Some ''#3f51b5''\<rparr>
       (fst (addAnnotation Fin 1700000000000 (1 / 8)
          \<lparr>position = \<lparr>vec_x = Fin 0, vec_y = Fin 0, vec_z = Fin 0\<rparr>, title = ''New Annotation'',
             description = ''Click to edit this annotation'', color = Some ''#3f51b5''\<rparr> []))))
     = [''annotation-1700000000000-125'', ''annotation-1700000000000-125'']"
proof -
  have id: "annotation_id Fin 1700000000000 (1 / 8) = ''annotation-1700000000000-125''"
    "annotation_id Fin 1700000000000 (129 / 1024) = ''annotation-1700000000000-125''"
    by (simp_all add: annotation_id_def random_suffix_eighth number_text_def
        number_string.simps digit_char_def)
  show ?thesis
    by (simp add: annotations_added ann_id_added id)
qed

text \<open>
  Claim C8, amended.  \<open>addAnnotation\<close> appends the record it returns, which carries the
  given data and the new identifier, to the end of the list.  Two calls, also with
  identical data, give distinct identifiers whenever their clock readings differ or their
  values of \<open>Math.floor(Math.random() * 1000)\<close>, computed in double arithmetic, differ.
  Removing the identifier just added, when no older annotation carries it, gives back the
  list as it was before the addition; and in general \<open>removeAnnotation\<close> leaves no
  annotation with the removed identifier, keeps every annotation with another identifier,
  and keeps them in their original order.
\<close>

theorem annotation_ids_and_removal:
  assumes "rounding rd"
    and "0 \<le> rnd" "rnd < 1" and "0 \<le> rnd'" "rnd' < 1"
    and "now \<noteq> now' \<or> random_suffix rd rnd \<noteq> random_suffix rd rnd'"
    and "\<forall>a \<in> set anns. ann_id a \<noteq> annotation_id rd now rnd"
  shows "fst (addAnnotation rd now rnd data anns) = anns @ [snd (addAnnotation rd now rnd data anns)]
    \<and> position (snd (addAnnotation rd now rnd data anns)) = position data
    \<and> title (snd (addAnnotation rd now rnd data anns)) = title data
    \<and> description (snd (addAnnotation rd now rnd data anns)) = description data
    \<and> color (snd (addAnnotation rd now rnd data anns)) = color data
    \<and> ann_id (snd (addAnnotation rd now rnd data anns)) = annotation_id rd now rnd
    \<and> ann_id (snd (addAnnotation rd now rnd data anns))
      \<noteq> ann_id (snd (addAnnotation rd now' rnd' data (fst (addAnnotation rd now rnd data anns))))
    \<and> fst (addAnnotation rd now' rnd' data (fst (addAnnotation rd now rnd data anns)))
      = anns @ [snd (addAnnotation rd now rnd data anns),
                snd (addAnnotation rd now' rnd' data (fst (addAnnotation rd now rnd data anns)))]
    \<and> removeAnnotation (ann_id (snd (addAnnotation rd now rnd data anns)))
        (fst (addAnnotation rd now rnd data anns)) = anns
    \<and> i \<notin> ann_id ` set (removeAnnotation i xs)
    \<and> (\<forall>a \<in> set xs. ann_id a \<noteq> i \<longrightarrow> a \<in> set (removeAnnotation i xs))
    \<and> subseq (removeAnnotation i xs) xs"
proof -
  let ?first = "addAnnotation rd now rnd data anns"
  let ?second = "addAnnotation rd now' rnd' data (fst ?first)"
  have 1: "fst ?first = anns @ [snd ?first]"
    by (rule annotations_added)
  have 2: "ann_id (snd ?first) \<noteq> ann_id (snd ?second)"
    using assms(6) by (simp add: ann_id_added annotation_id_eq_iff[OF assms(1-5)])
  have 3: "fst ?second = anns @ [snd ?first, snd ?second]"
    using annotations_added[of rd now' rnd' data "fst ?first"] 1 by simp
  have "filter (\<lambda>a. ann_id a \<noteq> annotation_id rd now rnd) anns = anns"
    using assms(7) by (simp add: filter_id_conv)
  then have 4: "removeAnnotation (ann_id (snd ?first)) (fst ?first) = anns"
    by (simp add: annotations_added ann_id_added removeAnnotation_def)
  have 5: "i \<notin> ann_id ` set (removeAnnotation i xs)"
    by (auto simp: removeAnnotation_def)
  have 6: "\<forall>a \<in> set xs. ann_id a \<noteq> i \<longrightarrow> a \<in> set (removeAnnotation i xs)"
    by (simp add: removeAnnotation_def)
  have 7: "subseq (removeAnnotation i xs) xs"
    by (simp add: removeAnnotation_def)
  from 1 2 3 4 5 6 7 data_added[of rd now rnd data anns] ann_id_added[of rd now rnd data anns]
  show ?thesis by blast
qed

theorem annotation_ids_and_removal_witness:
  "ann_id (snd (addAnnotation Fin 1700000000000 (1 / 8)
       \<lparr>position = \<lparr>vec_x = Fin 0, vec_y = Fin 0, vec_z = Fin 0\<rparr>, title = ''New Annotation'',
          description = ''Click to edit this annotation'', color = Some ''#3f51b5''\<rparr>
       [\<lparr>position = \<lparr>vec_x = Fin 1, vec_y = Fin 1, vec_z = Fin 1\<rparr>, title = ''Old'',
          description = ''first'', color = None, ann_id = ''annotation-1600000000000-7''\<rparr>]))
   \<noteq> ann_id (snd (addAnnotation Fin 1700000000000 (1 / 4)
       \<lparr>position = \<lparr>vec_x = Fin 0, vec_y = Fin 0, vec_z = Fin 0\<rparr>, title = ''New Annotation'',
          description = ''Click to edit this annotation'', color = Some ''#3f51b5''\<rparr>
       (fst (addAnnotation Fin 1700000000000 (1 / 8)
          \<lparr>position = \<lparr>vec_x = Fin 0, vec_y = Fin 0, vec_z = Fin 0\<rparr>, title = ''New Annotation'',
             description = ''Click to edit this annotation'', color = Some ''#3f51b5''\<rparr>
          [\<lparr>position = \<lparr>vec_x = Fin 1, vec_y = Fin 1, vec_z = Fin 1\<rparr>, title = ''Old'',
             description = ''first'', color = None, ann_id = ''annotation-1600000000000-7''\<rparr>]))))
   \<and> removeAnnotation ''annotation-1700000000000-125''
        (fst (addAnnotation Fin 1700000000000 (1 / 8)
          \<lparr>position = \<lparr>vec_x = Fin 0, vec_y = Fin 0, vec_z = Fin 0\<rparr>, title = ''New Annotation'',
             description = ''Click to edit this annotation'', color = Some ''#3f51b5''\<rparr>
          [\<lparr>position = \<lparr>vec_x = Fin 1, vec_y = Fin 1, vec_z = Fin 1\<rparr>, title = ''Old'',
             description = ''first'', color = None, ann_id = ''annotation-1600000000000-7''\<rparr>]))
      = [\<lparr>position = \<lparr>vec_x = Fin 1, vec_y = Fin 1, vec_z = Fin 1\<rparr>, title = ''Old'',
          description = ''first'', color = None, ann_id = ''annotation-1600000000000-7''\<rparr>]
   \<and> \<lparr>position = \<lparr>vec_x = Fin 1, vec_y = Fin 1, vec_z = Fin 1\<rparr>, title = ''Old'',
          description = ''first'', color = None, ann_id = ''annotation-1600000000000-7''\<rparr>
      \<in> set (removeAnnotation ''annotation-1600000000000-9''
        [\<lparr>position = \<lparr>vec_x = Fin 1, vec_y = Fin 1, vec_z = Fin 1\<rparr>, title = ''Old'',
          description = ''first'', color = None, ann_id = ''annotation-1600000000000-7''\<rparr>,
         \<lparr>position = \<lparr>vec_x = Fin 2, vec_y = Fin 2, vec_z = Fin 2\<rparr>, title = ''Other'',
          description = ''second'', color = None, ann_id = ''annotation-1600000000000-9''\<rparr>])"
proof -
  let ?old = "\<lparr>position = \<lparr>vec_x = Fin 1, vec_y = Fin 1, vec_z = Fin 1\<rparr>, title = ''Old'',
          description = ''first'', color = None, ann_id = ''annotation-1600000000000-7''\<rparr>"
  let ?other = "\<lparr>position = \<lparr>vec_x = Fin 2, vec_y = Fin 2, vec_z = Fin 2\<rparr>, title = ''Other'',
          description = ''second'', color = None, ann_id = ''annotation-1600000000000-9''\<rparr>"
  have id: "annotation_id Fin 1700000000000 (1 / 8) = ''annotation-1700000000000-125''"
    by (simp add: annotation_id_def random_suffix_eighth number_text_def
        number_string.simps digit_char_def)
  have h2: "(0::real) \<le> 1 / 8" "(1 / 8 :: real) < 1" and h3: "(0::real) \<le> 1 / 4" "(1 / 4 :: real) < 1"
    by simp_all
  have h6: "(1700000000000::nat) \<noteq> 1700000000000
      \<or> random_suffix Fin (1 / 8) \<noteq> random_suffix Fin (1 / 4)"
    by (simp add: random_suffix_eighth)
  have h7: "\<forall>a \<in> set [?old]. ann_id a \<noteq> annotation_id Fin 1700000000000 (1 / 8)"
    unfolding id by simp
  have h8: "?old \<in> set [?old, ?other]" "ann_id ?old \<noteq> ''annotation-1600000000000-9''"
    by simp_all
  from annotation_ids_and_removal[OF rounding_Fin h2 h3 h6 h7,
      where i = "''annotation-1600000000000-9''" and xs = "[?old, ?other]"
      and data = "\<lparr>position = \<lparr>vec_x = Fin 0, vec_y = Fin 0, vec_z = Fin 0\<rparr>, title = ''New Annotation'',
          description = ''Click to edit this annotation'', color = Some ''#3f51b5''\<rparr>"] h8
  show ?thesis
    unfolding ann_id_added id by blast
qed

section \<open>Render modes\<close>

text \<open>
  Claim C1, evaluated on a scene with one textured mesh whose material is named
  \<open>Body\<close>.  After \<open>wireframe\<close> and then \<open>textured\<close> the GLTF component still shows
  the green wireframe material, and the OBJ component shows the gray default material: in
  both the parsed material is gone, because the wireframe branch has overwritten
  \<open>mesh.material\<close> and the textured branch has nothing to restore it from.  Applied to the
  freshly parsed scene, \<open>textured\<close> keeps the parsed material.
\<close>

theorem render_mode_round_trip_fails:
  "applyRenderMode_GLTF ''textured'' (applyRenderMode_GLTF ''wireframe''
      (Object3D False NoMaterial
        [Object3D True (Single \<lparr>mat_type = ''MeshStandardMaterial'', mat_name = ''Body'',
            wireframe = False, mat_color = 0xff0000, flatShading = False,
            map_texture = Some ''body.png''\<rparr>) []]))
    = Object3D False NoMaterial [Object3D True (Single wireframeMaterial) []]
   \<and> applyRenderMode_OBJ ''textured'' (applyRenderMode_OBJ ''wireframe''
      (Object3D False NoMaterial
        [Object3D True (Single \<lparr>mat_type = ''MeshPhongMaterial'', mat_name = ''Body'',
            wireframe = False, mat_color = 0xff0000, flatShading = False,
            map_texture = Some ''body.png''\<rparr>) []]))
    = Object3D False NoMaterial [Object3D True (Single defaultMaterial) []]
   \<and> applyRenderMode_OBJ ''textured''
      (Object3D False NoMaterial
        [Object3D True (Single \<lparr>mat_type = ''MeshPhongMaterial'', mat_name = ''Body'',
            wireframe = False, mat_color = 0xff0000, flatShading = False,
            map_texture = Some ''body.png''\<rparr>) []])
    = Object3D False NoMaterial
        [Object3D True (Single \<lparr>mat_type = ''MeshPhongMaterial'', mat_name = ''Body'',
            wireframe = False, mat_color = 0xff0000, flatShading = False,
            map_texture = Some ''body.png''\<rparr>) []]"
  by (simp add: applyRenderMode_GLTF_def applyRenderMode_OBJ_def GLTF_material_def OBJ_material_def
      wireframeMaterial_def defaultMaterial_def)

section \<open>Special values\<close>

lemma div_by_zero_not_finite: "is_zero b \<Longrightarrow> \<not> is_finite (js_div rd a b)"
  by (cases a; cases b) (auto simp: js_div_def js_number_defs)

lemma mul_not_finite: "\<not> is_finite d \<Longrightarrow> \<not> is_finite (js_mul rd a d)"
  by (cases a; cases d) (auto simp: js_mul_def js_number_defs)

lemma mul_not_finite_left: "\<not> is_finite d \<Longrightarrow> \<not> is_finite (js_mul rd d a)"
  by (cases a; cases d) (auto simp: js_mul_def js_number_defs)

lemma add_not_finite: "\<not> is_finite b \<Longrightarrow> \<not> is_finite (js_add rd a b)"
  by (cases a; cases b) (auto simp: js_add_def js_number_defs)

lemma abs_not_finite: "\<not> is_finite a \<Longrightarrow> \<not> is_finite (Math_abs a)"
  by (cases a) (auto simp: Math_abs_def js_number_defs)

lemma div_not_finite: "\<not> is_finite a \<Longrightarrow> \<not> is_finite (js_div rd a b)"
  by (cases a; cases b) (auto simp: js_div_def js_number_defs)

lemma abs_cases: "Math_abs a = NaN \<or> Math_abs a = PInf \<or> (\<exists>r\<ge>0. Math_abs a = Fin r)"
  by (cases a) (auto simp: Math_abs_def)

section \<open>Division by zero in \<open>screenToWorld\<close>\<close>

text \<open>
  Claim C10.  \<open>screenToWorld\<close> divides by the z-component of the normalised ray direction
  without a guard: whenever that component is zero (either zero), the distance along the
  ray is an infinity or \<open>NaN\<close>, and all three coordinates of the returned vector are
  non-finite, for every camera, every input and every rounding.
\<close>

theorem screenToWorld_division_by_zero:
  assumes "is_zero (vec_z (rayDirection rd screenX screenY cam clientWidth clientHeight depth))"
  shows "\<not> is_finite (vec_x (screenToWorld rd screenX screenY cam clientWidth clientHeight depth))
    \<and> \<not> is_finite (vec_y (screenToWorld rd screenX screenY cam clientWidth clientHeight depth))
    \<and> \<not> is_finite (vec_z (screenToWorld rd screenX screenY cam clientWidth clientHeight depth))"
proof -
  let ?dir = "rayDirection rd screenX screenY cam clientWidth clientHeight depth"
  let ?distance = "js_div rd (js_sub rd depth (vec_z (cam_position cam))) (vec_z ?dir)"
  have d: "\<not> is_finite ?distance"
    by (rule div_by_zero_not_finite[OF assms])
  have "\<not> is_finite (js_add rd p (js_mul rd c ?distance))" for p c
    by (intro add_not_finite mul_not_finite d)
  then show ?thesis
    by (simp add: screenToWorld_def Let_def vec_add_def multiplyScalar_def)
qed

text \<open>
  The witness is the default \<open>THREE.Camera\<close>, whose two transforms are the identity, with
  the screen point (800, 300) of a viewport of 800 by 600 at depth 0.  Every intermediate
  value there (1, 2, 1/2, -1, 0) is a double, so that no operation rounds.
\<close>

theorem screenToWorld_division_by_zero_witness:
  "screenToWorld Fin (Fin 800) (Fin 300)
     \<lparr>cam_position = \<lparr>vec_x = Fin 0, vec_y = Fin 0, vec_z = Fin 0\<rparr>,
      cam_project = id, cam_unproject = id\<rparr> (Fin 800) (Fin 600) (Fin 0)
   = \<lparr>vec_x = NaN, vec_y = NaN, vec_z = NaN\<rparr>
   \<and> \<not> is_finite (vec_z (screenToWorld Fin (Fin 800) (Fin 300)
     \<lparr>cam_position = \<lparr>vec_x = Fin 0, vec_y = Fin 0, vec_z = Fin 0\<rparr>,
      cam_project = id, cam_unproject = id\<rparr> (Fin 800) (Fin 600) (Fin 0)))"
proof -
  let ?cam = "\<lparr>cam_position = \<lparr>vec_x = Fin 0, vec_y = Fin 0, vec_z = Fin 0\<rparr>,
      cam_project = id, cam_unproject = id\<rparr>"
  have dir: "rayDirection Fin (Fin 800) (Fin 300) ?cam (Fin 800) (Fin 600) (Fin 0)
      = \<lparr>vec_x = Fin 1, vec_y = Fin 0, vec_z = Fin 0\<rparr>"
    by (simp add: rayDirection_def deviceCoordinates_def normalize_vec_def divideScalar_def
        multiplyScalar_def vec_length_def vec_sub_def truthy_number_def Math_sqrt_def
        js_add_def js_sub_def js_mul_def js_div_def js_neg_def js_number_defs)
  have z: "is_zero (vec_z (rayDirection Fin (Fin 800) (Fin 300) ?cam (Fin 800) (Fin 600) (Fin 0)))"
    by (simp add: dir is_zero_def is_finite_def val_def)
  have pos: "screenToWorld Fin (Fin 800) (Fin 300) ?cam (Fin 800) (Fin 600) (Fin 0)
      = \<lparr>vec_x = NaN, vec_y = NaN, vec_z = NaN\<rparr>"
    by (simp add: screenToWorld_def dir vec_add_def multiplyScalar_def
        js_add_def js_sub_def js_mul_def js_div_def js_neg_def js_number_defs)
  from screenToWorld_division_by_zero[OF z] pos show ?thesis
    by blast
qed

section \<open>Camera auto-fit\<close>

lemma sin_half_fov:
  assumes "0 < d" and "d < 360"
  obtains s where "0 < s"
    and "Math_sin sin (js_div Fin (js_mul Fin (Fin d) (js_div Fin (Math_PI Fin) (Fin 180))) (Fin 2))
          = Fin s"
proof -
  have "0 < d * (pi / 180) / 2" using assms(1) by simp
  moreover have "d * (pi / 180) / 2 < pi" using assms(2) pi_gt_zero by (simp add: field_simps)
  ultimately have pos: "0 < sin (d * (pi / 180) / 2)" by (rule sin_gt_zero)
  then have "Math_sin sin (js_div Fin (js_mul Fin (Fin d) (js_div Fin (Math_PI Fin) (Fin 180))) (Fin 2))
      = Fin (sin (d * (pi / 180) / 2))"
    using assms(1)
    by (simp add: Math_sin_def Math_PI_def js_div_def js_mul_def js_number_defs)
  with pos that show thesis by blast
qed

lemma scaled_abs_cases:
  assumes "rounding rd"
  shows "js_mul rd (Math_abs a) (Fin (3 / 2)) = NaN
    \<or> js_mul rd (Math_abs a) (Fin (3 / 2)) = PInf
    \<or> (\<exists>q\<ge>0. js_mul rd (Math_abs a) (Fin (3 / 2)) = Fin q)"
proof -
  consider "Math_abs a = NaN" | "Math_abs a = PInf" | "Math_abs a = Fin 0"
    | r where "0 < r" "Math_abs a = Fin r"
    using abs_cases[of a] by (metis less_eq_real_def)
  then show ?thesis
  proof cases
    case 1
    then show ?thesis by (simp add: js_mul_def js_number_defs)
  next
    case 2
    then show ?thesis by (simp add: js_mul_def js_number_defs)
  next
    case 3
    then show ?thesis by (simp add: js_mul_def js_number_defs)
  next
    case 4
    then have "0 < r * (3 / 2)" by simp
    with assms have "rd (r * (3 / 2)) = PInf \<or> (\<exists>q\<ge>0. rd (r * (3 / 2)) = Fin q)"
      unfolding rounding_def by blast
    moreover have "js_mul rd (Math_abs a) (Fin (3 / 2)) = rd (r * (3 / 2))"
      using 4 by (simp add: js_mul_def js_number_defs)
    ultimately show ?thesis by simp
  qed
qed

text \<open>
  Claim C2, as stated, fails: auto-fit has no fallback.  With the viewer's field of view of
  50 degrees, a bounding box with a \<open>NaN\<close> extent gives the distance \<open>NaN\<close>, one with an
  infinite extent gives \<open>Infinity\<close>, and the empty box, whose size is zero, gives the
  distance 0 that the formula computes, not a default.  None of the three results depends
  on how the field of view and its sine are rounded, as long as the sine is positive.
\<close>

theorem autoFit_no_fallback:
  "autoFit Fin sin \<lparr>vec_x = NaN, vec_y = Fin 1, vec_z = Fin 1\<rparr> (Fin 50) = NaN
   \<and> autoFit Fin sin \<lparr>vec_x = PInf, vec_y = Fin 1, vec_z = Fin 1\<rparr> (Fin 50) = PInf
   \<and> autoFit Fin sin \<lparr>vec_x = Fin 0, vec_y = Fin 0, vec_z = Fin 0\<rparr> (Fin 50) = Fin 0"
proof -
  obtain s where s: "0 < s"
    "Math_sin sin (js_div Fin (js_mul Fin (Fin 50) (js_div Fin (Math_PI Fin) (Fin 180))) (Fin 2))
      = Fin s"
    using sin_half_fov[of 50] by auto
  have 1: "autoFit Fin sin \<lparr>vec_x = NaN, vec_y = Fin 1, vec_z = Fin 1\<rparr> (Fin 50) = NaN"
    by (simp add: autoFit_def Math_max_def max2_def Math_abs_def js_div_def js_mul_def js_number_defs)
  have 2: "autoFit Fin sin \<lparr>vec_x = PInf, vec_y = Fin 1, vec_z = Fin 1\<rparr> (Fin 50) = PInf"
    unfolding autoFit_def Let_def s(2) using s(1)
    by (simp add: Math_max_def max2_def js_less_def Math_abs_def js_div_def js_mul_def
        js_number_defs)
  have 3: "autoFit Fin sin \<lparr>vec_x = Fin 0, vec_y = Fin 0, vec_z = Fin 0\<rparr> (Fin 50) = Fin 0"
    unfolding autoFit_def Let_def s(2) using s(1)
    by (simp add: Math_max_def max2_def js_less_def Math_abs_def js_div_def js_mul_def
        js_number_defs)
  from 1 2 3 show ?thesis by blast
qed

text \<open>
  Claim C2, amended.  The auto-fit distance is \<open>|maxDim / sin(fov / 2)| * 1.5\<close>, computed in
  double arithmetic with no fallback.  It is never negative: it is \<open>NaN\<close>, \<open>+Infinity\<close> or
  a non-negative double.  When \<open>maxDim\<close> is \<open>NaN\<close> or infinite, so is the distance.  For a
  bounding box of size zero and a field of view whose computed sine is finite and not
  zero, the distance is 0, the value of the formula.
\<close>

theorem autoFit_distance:
  assumes "rounding rd"
    and "\<not> is_finite (Math_max (vec_x broken) (vec_y broken) (vec_z broken))"
    and "is_finite (Math_sin sine (js_div rd (js_mul rd fov (js_div rd (Math_PI rd) (Fin 180))) (Fin 2)))"
    and "\<not> is_zero (Math_sin sine (js_div rd (js_mul rd fov (js_div rd (Math_PI rd) (Fin 180))) (Fin 2)))"
  shows "autoFit rd sine box_size any_fov =
      js_mul rd
        (Math_abs (js_div rd (Math_max (vec_x box_size) (vec_y box_size) (vec_z box_size))
           (Math_sin sine (js_div rd (js_mul rd any_fov (js_div rd (Math_PI rd) (Fin 180))) (Fin 2)))))
        (Fin (3 / 2))
    \<and> (autoFit rd sine box_size any_fov = NaN \<or> autoFit rd sine box_size any_fov = PInf
        \<or> (\<exists>q\<ge>0. autoFit rd sine box_size any_fov = Fin q))
    \<and> \<not> js_less (autoFit rd sine box_size any_fov) (Fin 0)
    \<and> \<not> is_finite (autoFit rd sine broken any_fov)
    \<and> autoFit rd sine \<lparr>vec_x = Fin 0, vec_y = Fin 0, vec_z = Fin 0\<rparr> fov = Fin 0"
proof -
  let ?s = "Math_sin sine (js_div rd (js_mul rd fov (js_div rd (Math_PI rd) (Fin 180))) (Fin 2))"
  have 1: "autoFit rd sine box_size any_fov =
      js_mul rd
        (Math_abs (js_div rd (Math_max (vec_x box_size) (vec_y box_size) (vec_z box_size))
           (Math_sin sine (js_div rd (js_mul rd any_fov (js_div rd (Math_PI rd) (Fin 180))) (Fin 2)))))
        (Fin (3 / 2))"
    by (simp add: autoFit_def Let_def)
  have 2: "autoFit rd sine box_size any_fov = NaN \<or> autoFit rd sine box_size any_fov = PInf
        \<or> (\<exists>q\<ge>0. autoFit rd sine box_size any_fov = Fin q)"
    unfolding 1 by (rule scaled_abs_cases[OF assms(1)])
  then have 3: "\<not> js_less (autoFit rd sine box_size any_fov) (Fin 0)"
    by (auto simp: js_less_def js_number_defs)
  have 4: "\<not> is_finite (autoFit rd sine broken any_fov)"
    using assms(2)
    by (simp add: autoFit_def Let_def mul_not_finite_left abs_not_finite div_not_finite)
  have "js_div rd (Fin 0) ?s = Fin 0 \<or> js_div rd (Fin 0) ?s = NegZero"
    using assms(3,4) by (cases ?s) (auto simp: js_div_def js_number_defs)
  then have "Math_abs (js_div rd (Fin 0) ?s) = Fin 0"
    by (auto simp: Math_abs_def)
  then have 5: "autoFit rd sine \<lparr>vec_x = Fin 0, vec_y = Fin 0, vec_z = Fin 0\<rparr> fov = Fin 0"
    by (simp add: autoFit_def Let_def Math_max_def max2_def js_less_def js_mul_def js_number_defs)
  from 1 2 3 4 5 show ?thesis by blast
qed

text \<open>
  The witness takes exact rounding and the exact sine at the viewer's field of view of 50
  degrees; its three conclusions are about a sign, an infinity and a zero.
\<close>

theorem autoFit_distance_witness:
  "\<not> js_less (autoFit Fin sin \<lparr>vec_x = Fin 2, vec_y = Fin 1, vec_z = Fin 3\<rparr> (Fin 50)) (Fin 0)
   \<and> \<not> is_finite (autoFit Fin sin \<lparr>vec_x = Fin 2, vec_y = PInf, vec_z = Fin 3\<rparr> (Fin 50))
   \<and> autoFit Fin sin \<lparr>vec_x = Fin 0, vec_y = Fin 0, vec_z = Fin 0\<rparr> (Fin 50) = Fin 0"
proof -
  obtain s where s: "0 < s"
    "Math_sin sin (js_div Fin (js_mul Fin (Fin 50) (js_div Fin (Math_PI Fin) (Fin 180))) (Fin 2))
      = Fin s"
    using sin_half_fov[of 50] by auto
  have h2: "\<not> is_finite (Math_max (vec_x \<lparr>vec_x = Fin 2, vec_y = PInf, vec_z = Fin 3\<rparr>)
      (vec_y \<lparr>vec_x = Fin 2, vec_y = PInf, vec_z = Fin 3\<rparr>)
      (vec_z \<lparr>vec_x = Fin 2, vec_y = PInf, vec_z = Fin 3\<rparr>))"
    by (simp add: Math_max_def max2_def js_less_def js_number_defs)
  have h3: "is_finite (Math_sin sin
      (js_div Fin (js_mul Fin (Fin 50) (js_div Fin (Math_PI Fin) (Fin 180))) (Fin 2)))"
    and h4: "\<not> is_zero (Math_sin sin
      (js_div Fin (js_mul Fin (Fin 50) (js_div Fin (Math_PI Fin) (Fin 180))) (Fin 2)))"
    unfolding s(2) using s(1) by (simp_all add: is_finite_def is_zero_def val_def)
  from autoFit_distance[OF rounding_Fin h2 h3 h4,
      of "\<lparr>vec_x = Fin 2, vec_y = Fin 1, vec_z = Fin 3\<rparr>" "Fin 50"]
  show ?thesis by blast
qed

section \<open>Exact arithmetic on finite numbers\<close>

text \<open>With the rounding \<open>Fin\<close>, which rounds nothing, finite numbers behave as reals.\<close>

lemma finite_add:
  "is_finite a \<Longrightarrow> is_finite b \<Longrightarrow> is_finite (js_add Fin a b)"
  "is_finite a \<Longrightarrow> is_finite b \<Longrightarrow> val (js_add Fin a b) = val a + val b"
  by (cases a; cases b; auto simp: js_add_def js_number_defs)+

lemma finite_neg:
  "is_finite a \<Longrightarrow> is_finite (js_neg a)"
  "is_finite a \<Longrightarrow> val (js_neg a) = - val a"
  by (cases a; auto simp: js_neg_def js_number_defs)+

lemma finite_sub:
  "is_finite a \<Longrightarrow> is_finite b \<Longrightarrow> is_finite (js_sub Fin a b)"
  "is_finite a \<Longrightarrow> is_finite b \<Longrightarrow> val (js_sub Fin a b) = val a - val b"
  by (simp_all add: js_sub_def finite_add finite_neg)

lemma finite_mul:
  "is_finite a \<Longrightarrow> is_finite b \<Longrightarrow> is_finite (js_mul Fin a b)"
  "is_finite a \<Longrightarrow> is_finite b \<Longrightarrow> val (js_mul Fin a b) = val a * val b"
  by (cases a; cases b; auto simp: js_mul_def js_number_defs)+

lemma finite_div:
  "is_finite a \<Longrightarrow> is_finite b \<Longrightarrow> val b \<noteq> 0 \<Longrightarrow> is_finite (js_div Fin a b)"
  "is_finite a \<Longrightarrow> is_finite b \<Longrightarrow> val b \<noteq> 0 \<Longrightarrow> val (js_div Fin a b) = val a / val b"
  by (cases a; cases b; auto simp: js_div_def js_number_defs)+

lemma finite_sqrt:
  "is_finite a \<Longrightarrow> 0 \<le> val a \<Longrightarrow> is_finite (Math_sqrt Fin a)"
  "is_finite a \<Longrightarrow> 0 \<le> val a \<Longrightarrow> val (Math_sqrt Fin a) = sqrt (val a)"
  by (cases a; auto simp: Math_sqrt_def js_number_defs)+

lemma finite_round:
  "is_finite a \<Longrightarrow> is_finite (Math_round a)"
  "is_finite a \<Longrightarrow> val (Math_round a) = of_int \<lfloor>val a + 1 / 2\<rfloor>"
  by (cases a; auto simp: Math_round_def js_number_defs)+

lemma finite_Fin: "is_finite (Fin r)" "val (Fin r) = r"
  by (simp_all add: js_number_defs)


lemmas finite_arith = finite_add finite_neg finite_sub finite_mul finite_div finite_sqrt
  finite_round finite_Fin


section \<open>The projection round trip\<close>

lemma deviceCoordinates_finite:
  assumes "is_finite screenX" "is_finite screenY" "is_finite clientWidth" "is_finite clientHeight"
    and "is_finite depth" and "val clientWidth \<noteq> 0" and "val clientHeight \<noteq> 0"
  shows "finite_vec (deviceCoordinates Fin screenX screenY clientWidth clientHeight depth)"
    and "val (vec_x (deviceCoordinates Fin screenX screenY clientWidth clientHeight depth))
          = val screenX / val clientWidth * 2 - 1"
    and "val (vec_y (deviceCoordinates Fin screenX screenY clientWidth clientHeight depth))
          = - (val screenY / val clientHeight) * 2 + 1"
  using assms by (simp_all add: deviceCoordinates_def finite_vec_def finite_arith)







end
